theory Spec2Isabelle
  imports Complex_Main
begin

text \<open>
  The typed query and comparison engine of the class \<open>Csv2Table\<close>, in the version of the
  source that knows \<open>INEQUALITY\<close> tokens: the lexer and parser of \<open>parseSearchQuery\<close>,
  \<open>evaluateSearchAST\<close>, \<open>parseDateString\<close>, \<open>formatDate\<close>, and the filtering and sorting of
  \<open>renderTable\<close>. Each function of the source is a function here, under its own name; what
  the JavaScript engine contributes is a parameter, the record \<open>env\<close>.
\<close>

section \<open>JavaScript strings\<close>

text \<open>
  A JavaScript string is a sequence of UTF-16 code units. The model keeps the code units
  U+0000 to U+00FF, one \<^typ>\<open>char\<close> each, so a \<^typ>\<open>string\<close> here is a JavaScript string
  over that range.
\<close>

definition codeUnit :: "char \<Rightarrow> nat" where
  "codeUnit c = of_char c"

text \<open>The class \<open>\s\<close> of a regular expression, which is also what \<open>trim\<close> strips:
  TAB, LF, VT, FF, CR, SPACE and NBSP in this range.\<close>

definition isWhiteSpace :: "char \<Rightarrow> bool" where
  "isWhiteSpace c = (codeUnit c \<in> {9, 10, 11, 12, 13, 32, 160})"

definition isDigit :: "char \<Rightarrow> bool" where
  "isDigit c = (48 \<le> codeUnit c \<and> codeUnit c \<le> 57)"

definition isAsciiUpper :: "char \<Rightarrow> bool" where
  "isAsciiUpper c = (65 \<le> codeUnit c \<and> codeUnit c \<le> 90)"

definition isAsciiLower :: "char \<Rightarrow> bool" where
  "isAsciiLower c = (97 \<le> codeUnit c \<and> codeUnit c \<le> 122)"

text \<open>The class \<open>\w\<close>, which decides the word boundary \<open>\b\<close>.\<close>

definition isWordChar :: "char \<Rightarrow> bool" where
  "isWordChar c = (isAsciiUpper c \<or> isAsciiLower c \<or> isDigit c \<or> c = CHR ''_'')"

definition trim :: "string \<Rightarrow> string" where
  "trim s = rev (dropWhile isWhiteSpace (rev (dropWhile isWhiteSpace s)))"

text \<open>\<open>toLowerCase\<close>, one code unit at a time: A to Z, and the Latin-1 capitals
  U+00C0 to U+00DE without the multiplication sign U+00D7.\<close>

definition lowerChar :: "char \<Rightarrow> char" where
  "lowerChar c =
     (let n = codeUnit c in
      if (65 \<le> n \<and> n \<le> 90) \<or> (192 \<le> n \<and> n \<le> 222 \<and> n \<noteq> 215)
      then char_of (n + 32) else c)"

definition toLowerCase :: "string \<Rightarrow> string" where
  "toLowerCase s = map lowerChar s"

fun startsWith :: "string \<Rightarrow> string \<Rightarrow> bool" where
  "startsWith s [] = True"
| "startsWith [] (p # ps) = False"
| "startsWith (c # cs) (p # ps) = (c = p \<and> startsWith cs ps)"

definition endsWith :: "string \<Rightarrow> string \<Rightarrow> bool" where
  "endsWith s p = startsWith (rev s) (rev p)"

text \<open>A value is truthy in a condition unless it is \<open>null\<close>, \<open>undefined\<close> or the empty
  string.\<close>

definition truthy :: "string option \<Rightarrow> bool" where
  "truthy v = (case v of None \<Rightarrow> False | Some s \<Rightarrow> s \<noteq> [])"

section \<open>The query lexer of \<open>parseSearchQuery\<close>\<close>

datatype operator = GE | LE | GT | LT

text \<open>The tokens of type \<open>'TERM'\<close> and \<open>'INEQUALITY'\<close>, which are also the leaves of the
  syntax tree: the fields are \<open>column\<close>, (\<open>operator\<close>,) \<open>value\<close>.\<close>

datatype leaf =
    Term "string option" string
  | Inequality "string option" operator string

datatype token = LPAREN | RPAREN | AND | OR | Leaf leaf

text \<open>A pattern letter under the flag \<open>i\<close> matches itself in either case.\<close>

definition matchesIgnoreCase :: "char \<Rightarrow> char \<Rightarrow> bool" where
  "matchesIgnoreCase p c = (lowerChar c = lowerChar p)"

fun startsWithIgnoreCase :: "string \<Rightarrow> string \<Rightarrow> bool" where
  "startsWithIgnoreCase s [] = True"
| "startsWithIgnoreCase [] (p # ps) = False"
| "startsWithIgnoreCase (c # cs) (p # ps) = (matchesIgnoreCase p c \<and> startsWithIgnoreCase cs ps)"

text \<open>\<open>\b\<close> right after a matched keyword, whose last letter is a word character: the
  next character is not one, or the input ends.\<close>

definition wordBoundary :: "string \<Rightarrow> bool" where
  "wordBoundary s = (case s of [] \<Rightarrow> True | c # _ \<Rightarrow> \<not> isWordChar c)"

text \<open>\<open>query.slice(i).match(/^(AND\b|OR\b)/i)\<close>: the token and the length of the match.\<close>

definition matchKeyword :: "string \<Rightarrow> (token \<times> nat) option" where
  "matchKeyword s =
     (if startsWithIgnoreCase s ''AND'' \<and> wordBoundary (drop 3 s) then Some (AND, 3)
      else if startsWithIgnoreCase s ''OR'' \<and> wordBoundary (drop 2 s) then Some (OR, 2)
      else None)"

definition isColumnChar :: "char \<Rightarrow> bool" where
  "isColumnChar c = (c \<notin> set '':()<>=!'' \<and> \<not> isWhiteSpace c)"

text \<open>\<open>query.slice(i).match(/^([^:()<>=!\s]+):/)\<close>: the captured name. The run is greedy
  and the class excludes the colon, so only the longest run can be followed by one.\<close>

definition matchColumn :: "string \<Rightarrow> string option" where
  "matchColumn s =
     (let name = takeWhile isColumnChar s in
      if name \<noteq> [] \<and> startsWith (dropWhile isColumnChar s) '':'' then Some name else None)"

text \<open>\<open>query.slice(i).match(/^(>=|<=|>|<)/)\<close>: the operator and the length of the match.\<close>

definition matchOperator :: "string \<Rightarrow> (operator \<times> nat) option" where
  "matchOperator s =
     (if startsWith s ''>='' then Some (GE, 2)
      else if startsWith s ''<='' then Some (LE, 2)
      else if startsWith s ''>'' then Some (GT, 1)
      else if startsWith s ''<'' then Some (LT, 1)
      else None)"

definition isValueStop :: "char \<Rightarrow> bool" where
  "isValueStop c = (isWhiteSpace c \<or> c = CHR ''('' \<or> c = CHR '')'')"

definition isQuote :: "char \<Rightarrow> bool" where
  "isQuote c = (c = CHR 0x22)"

text \<open>The value of a token and what is left of the query after it: quoted text up to the
  closing quote (skipped when there is one), or a run up to white space or a parenthesis.\<close>

definition readValue :: "string \<Rightarrow> string \<times> string" where
  "readValue s =
     (case s of
        [] \<Rightarrow> ([], [])
      | c # r \<Rightarrow>
          if isQuote c
          then (takeWhile (\<lambda>x. \<not> isQuote x) r, drop 1 (dropWhile (\<lambda>x. \<not> isQuote x) r))
          else (takeWhile (\<lambda>x. \<not> isValueStop x) s, dropWhile (\<lambda>x. \<not> isValueStop x) s))"

text \<open>One turn of the lexer's loop on \<open>query.slice(i)\<close>, which is not empty: the tokens
  pushed (none or one) and the rest of the query.\<close>

definition lexStep :: "string \<Rightarrow> token list \<times> string" where
  "lexStep s =
     (if isWhiteSpace (hd s) then ([], tl s)
      else if hd s = CHR ''('' then ([LPAREN], tl s)
      else if hd s = CHR '')'' then ([RPAREN], tl s)
      else
        case matchKeyword s of
          Some (t, n) \<Rightarrow> ([t], drop n s)
        | None \<Rightarrow>
            let column = matchColumn s;
                s1 = (case column of Some c \<Rightarrow> drop (length c + 1) s | None \<Rightarrow> s);
                opm = matchOperator s1;
                s2 = (case opm of Some (_, n) \<Rightarrow> drop n s1 | None \<Rightarrow> s1);
                (v, s3) = readValue s2
            in (if v \<noteq> [] \<or> truthy column
                then [case opm of
                        Some (opr, _) \<Rightarrow> Leaf (Inequality column opr (toLowerCase v))
                      | None \<Rightarrow> Leaf (Term column (toLowerCase v))]
                else [],
                s3))"

lemma length_readValue: "length (snd (readValue s)) \<le> length s"
proof (cases s)
  case Nil
  then show ?thesis by (simp add: readValue_def)
next
  case (Cons c r)
  have q: "length (dropWhile (\<lambda>x. \<not> isQuote x) r) \<le> length r"
    by (rule length_dropWhile_le)
  have v: "length (dropWhile (\<lambda>x. \<not> isValueStop x) s) \<le> length s"
    by (rule length_dropWhile_le)
  show ?thesis
  proof (cases "isQuote c")
    case True
    with q Cons show ?thesis by (simp add: readValue_def)
  next
    case False
    with v Cons show ?thesis by (simp add: readValue_def del: dropWhile.simps)
  qed
qed

lemma readValue_progress:
  assumes "s \<noteq> []" and "\<not> isValueStop (hd s)"
  shows "length (snd (readValue s)) < length s"
proof (cases s)
  case Nil
  with assms show ?thesis by simp
next
  case (Cons c r)
  have q: "length (dropWhile (\<lambda>x. \<not> isQuote x) r) \<le> length r"
    by (rule length_dropWhile_le)
  have v: "length (dropWhile (\<lambda>x. \<not> isValueStop x) r) \<le> length r"
    by (rule length_dropWhile_le)
  from assms Cons have n: "\<not> isValueStop c" by simp
  show ?thesis
  proof (cases "isQuote c")
    case True
    with q Cons show ?thesis by (simp add: readValue_def)
  next
    case False
    with v n Cons show ?thesis by (simp add: readValue_def)
  qed
qed

lemma matchKeyword_length:
  assumes "matchKeyword s = Some (t, n)"
  shows "0 < n \<and> n \<le> length s"
proof -
  have a: "startsWithIgnoreCase s p \<Longrightarrow> length p \<le> length s" for p
    by (induction s p rule: startsWithIgnoreCase.induct) auto
  from assms a [of "''AND''"] a [of "''OR''"] show ?thesis
    by (auto simp: matchKeyword_def split: if_splits)
qed

lemma lexStep_progress:
  assumes "s \<noteq> []"
  shows "length (snd (lexStep s)) < length s"
proof -
  consider (sp) "isValueStop (hd s)"
    | (kw) t n where "\<not> isValueStop (hd s)" "matchKeyword s = Some (t, n)"
    | (tk) "\<not> isValueStop (hd s)" "matchKeyword s = None"
    by (cases "matchKeyword s") auto
  then show ?thesis
  proof cases
    case sp
    with assms show ?thesis
      by (cases s) (auto simp: lexStep_def isValueStop_def)
  next
    case kw
    from matchKeyword_length [OF kw(2)] assms kw show ?thesis
      by (cases s) (auto simp: lexStep_def isValueStop_def)
  next
    case tk
    define s1 where "s1 = (case matchColumn s of Some c \<Rightarrow> drop (length c + 1) s | None \<Rightarrow> s)"
    define s2 where "s2 = (case matchOperator s1 of Some (_, n) \<Rightarrow> drop n s1 | None \<Rightarrow> s1)"
    have r: "snd (lexStep s) = snd (readValue s2)"
      using tk unfolding s1_def s2_def lexStep_def
      by (simp add: isValueStop_def Let_def case_prod_beta)
    have l1: "length s1 \<le> length s"
      by (simp add: s1_def split: option.splits)
    have l2: "length s2 \<le> length s1"
      by (simp add: s2_def split: option.splits prod.splits)
    show ?thesis
    proof (cases "s2 = s")
      case True
      with readValue_progress [of s] assms tk(1) r show ?thesis by simp
    next
      case False
      have "length s2 < length s"
      proof (cases "matchColumn s")
        case (Some c)
        with assms have "length s1 < length s" by (simp add: s1_def)
        with l2 show ?thesis by simp
      next
        case None
        then have e: "s1 = s" by (simp add: s1_def)
        with False obtain o' n where m: "matchOperator s = Some (o', n)"
          by (cases "matchOperator s") (auto simp: s2_def)
        then have "0 < n" by (auto simp: matchOperator_def split: if_splits)
        with m e assms show ?thesis by (simp add: s2_def)
      qed
      with length_readValue [of s2] r show ?thesis by simp
    qed
  qed
qed

lemma lexStep_rest:
  assumes "s \<noteq> []" and "(ts, r) = lexStep s"
  shows "length r < length s"
  using lexStep_progress [OF assms(1)] assms(2) [symmetric] by simp

text \<open>The lexer's \<open>while\<close> loop: the tokens pushed from the cursor to the end of the query.\<close>

function tokenize :: "string \<Rightarrow> token list" where
  "tokenize s = (if s = [] then [] else case lexStep s of (ts, r) \<Rightarrow> ts @ tokenize r)"
  by pat_completeness auto
termination
  by (relation "measure length") (auto intro: lexStep_rest)

declare tokenize.simps [simp del]

section \<open>The query parser of \<open>parseSearchQuery\<close>\<close>

text \<open>A node of the syntax tree is a leaf token itself, or an object of type \<open>'AND'\<close> or
  \<open>'OR'\<close> with a \<open>left\<close> and a \<open>right\<close> node; \<open>null\<close> is \<open>None\<close>.\<close>

datatype ast = Node leaf | AndNode ast ast | OrNode ast ast

text \<open>What both loops do with the node so far and the one just parsed:
  \<open>if (node && right) node = {type, left: node, right}; else if (right) node = right;\<close>\<close>

definition combine :: "(ast \<Rightarrow> ast \<Rightarrow> ast) \<Rightarrow> ast option \<Rightarrow> ast option \<Rightarrow> ast option" where
  "combine mk node right =
     (case right of
        None \<Rightarrow> node
      | Some r \<Rightarrow> (case node of None \<Rightarrow> Some r | Some n \<Rightarrow> Some (mk n r)))"

text \<open>The tokens on which the loop of \<open>parseAnd\<close> goes on.\<close>

definition startsTerm :: "token \<Rightarrow> bool" where
  "startsTerm t = (case t of AND \<Rightarrow> True | Leaf _ \<Rightarrow> True | LPAREN \<Rightarrow> True | _ \<Rightarrow> False)"

text \<open>The three mutually recursive closures share the cursor \<open>pos\<close> into \<open>tokens\<close>; here
  each takes the tokens from the cursor on and returns its node with the tokens left. The
  two \<open>while\<close> loops are \<open>parseAndLoop\<close> and \<open>parseOrLoop\<close>.\<close>

function parseTerm :: "token list \<Rightarrow> ast option \<times> token list"
  and parseAnd :: "token list \<Rightarrow> ast option \<times> token list"
  and parseAndLoop :: "ast option \<Rightarrow> token list \<Rightarrow> ast option \<times> token list"
  and parseOr :: "token list \<Rightarrow> ast option \<times> token list"
  and parseOrLoop :: "ast option \<Rightarrow> token list \<Rightarrow> ast option \<times> token list"
where
  "parseTerm [] = (None, [])"
| "parseTerm (LPAREN # ts) =
     (case parseOr ts of
        (node, RPAREN # r) \<Rightarrow> (node, r)
      | (node, r) \<Rightarrow> (node, r))"
| "parseTerm (Leaf l # ts) = (Some (Node l), ts)"
| "parseTerm (RPAREN # ts) = (None, ts)"
| "parseTerm (AND # ts) = (None, ts)"
| "parseTerm (OR # ts) = (None, ts)"
| "parseAnd ts = (case parseTerm ts of (node, r) \<Rightarrow> parseAndLoop node r)"
| "parseAndLoop node [] = (node, [])"
| "parseAndLoop node (t # ts) =
     (if startsTerm t
      then case parseTerm (if t = AND then ts else t # ts) of
             (right, r) \<Rightarrow> parseAndLoop (combine AndNode node right) r
      else (node, t # ts))"
| "parseOr ts = (case parseAnd ts of (node, r) \<Rightarrow> parseOrLoop node r)"
| "parseOrLoop node [] = (node, [])"
| "parseOrLoop node (t # ts) =
     (if t = OR
      then case parseAnd ts of (right, r) \<Rightarrow> parseOrLoop (combine OrNode node right) r
      else (node, t # ts))"
  by pat_completeness auto

text \<open>No call hands back more tokens than it was given, and \<open>parseTerm\<close> takes at least one
  when there is one: this is why the loops end.\<close>

lemma parse_lengths:
  "parseTerm_parseAnd_parseAndLoop_parseOr_parseOrLoop_dom (Inl (Inl a)) \<Longrightarrow>
     length (snd (parseTerm a)) \<le> length a \<and> (a \<noteq> [] \<longrightarrow> length (snd (parseTerm a)) < length a)"
  "parseTerm_parseAnd_parseAndLoop_parseOr_parseOrLoop_dom (Inl (Inr b)) \<Longrightarrow>
     length (snd (parseAnd b)) \<le> length b"
  "parseTerm_parseAnd_parseAndLoop_parseOr_parseOrLoop_dom (Inr (Inl (n, c))) \<Longrightarrow>
     length (snd (parseAndLoop n c)) \<le> length c"
  "parseTerm_parseAnd_parseAndLoop_parseOr_parseOrLoop_dom (Inr (Inr (Inl d))) \<Longrightarrow>
     length (snd (parseOr d)) \<le> length d"
  "parseTerm_parseAnd_parseAndLoop_parseOr_parseOrLoop_dom (Inr (Inr (Inr (m, e)))) \<Longrightarrow>
     length (snd (parseOrLoop m e)) \<le> length e"
proof (induction a and b and n c and d and m e
    rule: parseTerm_parseAnd_parseAndLoop_parseOr_parseOrLoop.pinduct)
  case 1
  then show ?case by (simp add: parseTerm.psimps)
next
  case (2 ts)
  then show ?case
    by (cases "parseOr ts") (auto simp: parseTerm.psimps split: list.splits token.splits)
next
  case (3 l ts)
  then show ?case by (simp add: parseTerm.psimps)
next
  case (4 ts)
  then show ?case by (simp add: parseTerm.psimps)
next
  case (5 ts)
  then show ?case by (simp add: parseTerm.psimps)
next
  case (6 ts)
  then show ?case by (simp add: parseTerm.psimps)
next
  case (7 ts)
  then show ?case
    by (cases "parseTerm ts") (fastforce simp: parseAnd.psimps)
next
  case (8 node)
  then show ?case by (simp add: parseAndLoop.psimps)
next
  case (9 node t ts)
  show ?case
  proof (cases "startsTerm t")
    case False
    with 9(1) show ?thesis by (simp add: parseAndLoop.psimps)
  next
    case True
    obtain x y where xy: "parseTerm (if t = AND then ts else t # ts) = (x, y)"
      by (cases "parseTerm (if t = AND then ts else t # ts)")
    from 9(2) [OF True] xy have "length y \<le> length (t # ts)"
      by (auto split: if_splits)
    moreover from 9(3) [OF True xy [symmetric]]
    have "length (snd (parseAndLoop (combine AndNode node x) y)) \<le> length y" .
    ultimately show ?thesis using 9(1) True xy by (simp add: parseAndLoop.psimps)
  qed
next
  case (10 ts)
  then show ?case
    by (cases "parseAnd ts") (fastforce simp: parseOr.psimps)
next
  case (11 node)
  then show ?case by (simp add: parseOrLoop.psimps)
next
  case (12 node t ts)
  show ?case
  proof (cases "t = OR")
    case False
    with 12(1) show ?thesis by (simp add: parseOrLoop.psimps)
  next
    case True
    obtain x y where xy: "parseAnd ts = (x, y)" by (cases "parseAnd ts")
    from 12(2) [OF True] xy have "length y \<le> length ts" by simp
    moreover from 12(3) [OF True xy [symmetric]]
    have "length (snd (parseOrLoop (combine OrNode node x) y)) \<le> length y" .
    ultimately show ?thesis using 12(1) True xy by (simp add: parseOrLoop.psimps)
  qed
qed

termination parseTerm
proof (relation "measure (\<lambda>x. case x of
      Inl (Inl ts) \<Rightarrow> 5 * length ts
    | Inl (Inr ts) \<Rightarrow> 5 * length ts + 2
    | Inr (Inl (node, ts)) \<Rightarrow> 5 * length ts + 1
    | Inr (Inr (Inl ts)) \<Rightarrow> 5 * length ts + 4
    | Inr (Inr (Inr (node, ts))) \<Rightarrow> 5 * length ts + 3)", goal_cases)
  case 1
  then show ?case by simp
next
  case (2 ts)
  then show ?case by simp
next
  case (3 ts)
  then show ?case by simp
next
  case (4 ts x y)
  then have "y = snd (parseTerm ts)" by (metis snd_conv)
  with 4 parse_lengths(1) [of ts] show ?case by (auto simp: case_prod_beta)
next
  case (5 node t ts)
  then show ?case by (auto split: if_splits)
next
  case (6 node t ts x y)
  then have "y = snd (parseTerm (if t = AND then ts else t # ts))" by (metis snd_conv)
  with 6 parse_lengths(1) [of "if t = AND then ts else t # ts"] show ?case
    by (auto simp: case_prod_beta split: if_splits)
next
  case (7 ts)
  then show ?case by simp
next
  case (8 ts x y)
  then have "y = snd (parseAnd ts)" by (metis snd_conv)
  with 8 parse_lengths(2) [of ts] show ?case by (auto simp: case_prod_beta)
next
  case (9 node t ts)
  then show ?case by simp
next
  case (10 node t ts x y)
  then have "y = snd (parseAnd ts)" by (metis snd_conv)
  with 10 parse_lengths(2) [of ts] show ?case by (auto simp: case_prod_beta)
qed

text \<open>\<open>parseSearchQuery\<close>: the lexer runs over the query as it is (not trimmed).\<close>

definition parseSearchQuery :: "string \<Rightarrow> ast option" where
  "parseSearchQuery query =
     (if query = [] \<or> trim query = [] then None else fst (parseOr (tokenize query)))"

section \<open>Numbers\<close>

text \<open>
  A JavaScript number is \<open>NaN\<close>, an infinity or a finite value of the binary64 format. A
  finite value is kept as the rational it denotes; what a digit string or a subtraction
  yields is rounded to the nearest binary64 value, ties to the even significand, and is an
  infinity from \<open>2 ^ 1024 - 2 ^ 970\<close> on, the least magnitude that rounds up to \<open>2 ^ 1024\<close>.
  Zero has no sign.
\<close>

datatype jsnum = NaN | NegInf | PosInf | Fin rat

text \<open>The number of binary digits of a positive integer.\<close>

function bitLength :: "int \<Rightarrow> int" where
  "bitLength n = (if n \<le> 0 then 0 else 1 + bitLength (n div 2))"
  by pat_completeness auto
termination
  by (relation "measure nat") auto

declare bitLength.simps [simp del]

definition pow2 :: "int \<Rightarrow> rat" where
  "pow2 e = (if 0 \<le> e then 2 ^ nat e else 1 / 2 ^ nat (- e))"

text \<open>The exponent \<open>e\<close> of a positive rational \<open>a\<close>: \<open>2 ^ e \<le> a < 2 ^ (e + 1)\<close>.\<close>

definition binaryExponent :: "rat \<Rightarrow> int" where
  "binaryExponent a =
     (let (p, q) = quotient_of a;
          d = bitLength p - bitLength q
      in if pow2 d \<le> a then d else d - 1)"

definition roundHalfEven :: "rat \<Rightarrow> int" where
  "roundHalfEven q =
     (let n = \<lfloor>q\<rfloor>; f = q - of_int n in
      if f < 1 / 2 then n else if 1 / 2 < f then n + 1 else if even n then n else n + 1)"

text \<open>A positive rational rounded to a multiple of the unit in the last place of its
  binade: 53 significant bits, and the fixed unit \<open>2 ^ - 1074\<close> below \<open>2 ^ - 1022\<close>.\<close>

definition roundDouble :: "rat \<Rightarrow> rat" where
  "roundDouble a =
     (let ulp = pow2 (max (binaryExponent a) (- 1022) - 52)
      in of_int (roundHalfEven (a / ulp)) * ulp)"

text \<open>The Number value for a real number.\<close>

definition toDouble :: "rat \<Rightarrow> jsnum" where
  "toDouble x =
     (if x = 0 then Fin 0
      else if 2 ^ 1024 - 2 ^ 970 \<le> \<bar>x\<bar> then (if x < 0 then NegInf else PosInf)
      else Fin (if x < 0 then - roundDouble (- x) else roundDouble x))"

definition isNaN :: "jsnum \<Rightarrow> bool" where
  "isNaN x = (x = NaN)"

text \<open>\<open>a - b\<close>: an infinity minus itself is \<open>NaN\<close>, and the difference of two finite values
  is rounded.\<close>

fun minus_num :: "jsnum \<Rightarrow> jsnum \<Rightarrow> jsnum" where
  "minus_num NaN b = NaN"
| "minus_num a NaN = NaN"
| "minus_num NegInf NegInf = NaN"
| "minus_num PosInf PosInf = NaN"
| "minus_num NegInf b = NegInf"
| "minus_num PosInf b = PosInf"
| "minus_num (Fin x) NegInf = PosInf"
| "minus_num (Fin x) PosInf = NegInf"
| "minus_num (Fin x) (Fin y) = toDouble (x - y)"

text \<open>\<open>-a\<close>.\<close>

fun neg_num :: "jsnum \<Rightarrow> jsnum" where
  "neg_num NaN = NaN"
| "neg_num NegInf = PosInf"
| "neg_num PosInf = NegInf"
| "neg_num (Fin x) = Fin (- x)"

text \<open>\<open>a < b\<close>, false when either side is \<open>NaN\<close>; the other three comparisons follow.\<close>

fun less_num :: "jsnum \<Rightarrow> jsnum \<Rightarrow> bool" where
  "less_num NaN b = False"
| "less_num a NaN = False"
| "less_num a NegInf = False"
| "less_num PosInf b = False"
| "less_num NegInf b = True"
| "less_num (Fin x) PosInf = True"
| "less_num (Fin x) (Fin y) = (x < y)"

definition le_num :: "jsnum \<Rightarrow> jsnum \<Rightarrow> bool" where
  "le_num a b = (\<not> isNaN a \<and> \<not> isNaN b \<and> \<not> less_num b a)"

definition digitValue :: "char \<Rightarrow> nat" where
  "digitValue c = codeUnit c - 48"

definition digitsValue :: "string \<Rightarrow> nat" where
  "digitsValue ds = foldl (\<lambda>n c. 10 * n + digitValue c) 0 ds"

text \<open>The sign a numeric string may start with: whether it is a minus, and the rest.\<close>

definition readSign :: "string \<Rightarrow> bool \<times> string" where
  "readSign s =
     (if startsWith s ''-'' then (True, tl s)
      else if startsWith s ''+'' then (False, tl s)
      else (False, s))"

text \<open>The exponent part \<open>e\<close> or \<open>E\<close>, sign, digits at the head of a string; \<open>0\<close> when
  there is none.\<close>

definition readExponent :: "string \<Rightarrow> int" where
  "readExponent s =
     (if startsWith s ''e'' \<or> startsWith s ''E''
      then (let (neg, r) = readSign (tl s); ds = takeWhile isDigit r in
            if ds = [] then 0
            else if neg then - int (digitsValue ds) else int (digitsValue ds))
      else 0)"

definition pow10 :: "int \<Rightarrow> rat" where
  "pow10 e = (if 0 \<le> e then 10 ^ nat e else 1 / 10 ^ nat (- e))"

text \<open>\<open>parseFloat\<close>: leading white space is skipped, then the longest prefix that is a
  decimal literal (or \<open>Infinity\<close>) is read; \<open>NaN\<close> when there is none. The result is the Number
  value for the mathematical value of the literal.\<close>

definition parseFloat :: "string \<Rightarrow> jsnum" where
  "parseFloat s =
     (let (neg, u) = readSign (dropWhile isWhiteSpace s) in
      if startsWith u ''Infinity'' then (if neg then NegInf else PosInf)
      else
        let ip = takeWhile isDigit u;
            r1 = dropWhile isDigit u;
            point = startsWith r1 ''.'';
            fp = (if point then takeWhile isDigit (tl r1) else []);
            r2 = (if point then dropWhile isDigit (tl r1) else r1)
        in if ip = [] \<and> fp = [] then NaN
           else
             let m = of_nat (digitsValue (ip @ fp)) * pow10 (readExponent r2 - int (length fp))
             in toDouble (if neg then - m else m))"

text \<open>\<open>parseInt(s, 10)\<close>: \<open>None\<close> is \<open>NaN\<close>. The integer is exact.\<close>

definition parseInt :: "string \<Rightarrow> int option" where
  "parseInt s =
     (let (neg, u) = readSign (dropWhile isWhiteSpace s); ds = takeWhile isDigit u in
      if ds = [] then None
      else Some (if neg then - int (digitsValue ds) else int (digitsValue ds)))"

text \<open>\<open>s.replace(/[^\d.-]/g, '')\<close>, which both the comparator and the inequality test
  apply to a cell before \<open>parseFloat\<close>.\<close>

definition stripNumber :: "string \<Rightarrow> string" where
  "stripNumber s = filter (\<lambda>c. isDigit c \<or> c = CHR ''.'' \<or> c = CHR ''-'') s"

definition digitChar :: "nat \<Rightarrow> char" where
  "digitChar n = char_of (48 + n mod 10)"

fun showNat :: "nat \<Rightarrow> string" where
  "showNat n = (if n < 10 then [digitChar n] else showNat (n div 10) @ [digitChar n])"

declare showNat.simps [simp del]

text \<open>\<open>String(n)\<close> for an integer.\<close>

definition showInt :: "int \<Rightarrow> string" where
  "showInt i = (if i < 0 then CHR ''-'' # showNat (nat (- i)) else showNat (nat i))"

text \<open>\<open>String(n)\<close> for an integer or \<open>NaN\<close>.\<close>

definition showNum :: "int option \<Rightarrow> string" where
  "showNum n = (case n of None \<Rightarrow> ''NaN'' | Some i \<Rightarrow> showInt i)"

text \<open>\<open>s.padStart(n, '0')\<close>.\<close>

definition padStart0 :: "nat \<Rightarrow> string \<Rightarrow> string" where
  "padStart0 n s = replicate (n - length s) CHR ''0'' @ s"

section \<open>The environment\<close>

text \<open>
  What the program takes from the JavaScript engine and cannot be read off its source:
  \<^item> \<open>regexEngine p s\<close>: the result of \<open>s.match(new RegExp(p))\<close> for a pattern the
    constructor accepts or rejects for a reason other than the one \<open>hasInvalidGroupName\<close>
    below models;
  \<^item> \<open>implDateParse s\<close>: \<open>Date.parse(s)\<close> for a string outside the shapes that
    \<open>Date_parse\<close> below reads itself; for a string that is not in the ECMAScript date-time
    format the standard leaves the result to the engine;
  \<^item> \<open>localTZA t isUTC\<close>: the offset of local time from UTC in milliseconds, at the UTC time
    \<open>t\<close> when \<open>isUTC\<close> and at the local time \<open>t\<close> otherwise;
  \<^item> \<open>shortWeekday loc t\<close> and \<open>shortMonth loc t\<close>: what \<open>Intl.DateTimeFormat\<close> prints for the
    options \<open>{weekday: 'short'}\<close> and \<open>{month: 'short'}\<close> (a well-formed locale tag is taken
    for granted);
  \<^item> \<open>localeCompare a b\<close>: \<open>a.localeCompare(b)\<close>.
\<close>

datatype regexResult =
    Throws
  | NoMatch
  | Match "(string \<Rightarrow> string option) option"

record env =
  regexEngine :: "string \<Rightarrow> string \<Rightarrow> regexResult"
  implDateParse :: "string \<Rightarrow> int option"
  localTZA :: "int \<Rightarrow> bool \<Rightarrow> int"
  shortWeekday :: "string option \<Rightarrow> int \<Rightarrow> string"
  shortMonth :: "string option \<Rightarrow> int \<Rightarrow> string"
  localeCompare :: "string \<Rightarrow> string \<Rightarrow> int"

section \<open>Time values\<close>

text \<open>A time value is a number of milliseconds since 1970-01-01T00:00:00Z, or \<open>NaN\<close>
  (\<open>None\<close>). The calendar is the proleptic Gregorian one of ECMAScript.\<close>

definition msPerDay :: int where
  "msPerDay = 86400000"

text \<open>The day number of the day \<open>d\<close> of month \<open>m\<close> (from 1) of year \<open>y\<close>.\<close>

definition daysFromCivil :: "int \<Rightarrow> int \<Rightarrow> int \<Rightarrow> int" where
  "daysFromCivil y m d =
     (let y' = (if m \<le> 2 then y - 1 else y);
          era = y' div 400;
          yoe = y' - era * 400;
          doy = (153 * (if m > 2 then m - 3 else m + 9) + 2) div 5 + d - 1;
          doe = yoe * 365 + yoe div 4 - yoe div 100 + doy
      in era * 146097 + doe - 719468)"

text \<open>Year, month (from 1) and day of the month of a day number.\<close>

definition civilFromDays :: "int \<Rightarrow> int \<times> int \<times> int" where
  "civilFromDays z =
     (let z' = z + 719468;
          era = z' div 146097;
          doe = z' - era * 146097;
          yoe = (doe - doe div 1460 + doe div 36524 - doe div 146096) div 365;
          doy = doe - (365 * yoe + yoe div 4 - yoe div 100);
          mp = (5 * doy + 2) div 153;
          d = doy - (153 * mp + 2) div 5 + 1;
          m = (if mp < 10 then mp + 3 else mp - 9)
      in (yoe + era * 400 + (if m \<le> 2 then 1 else 0), m, d))"

text \<open>\<open>MakeDay\<close>, \<open>MakeTime\<close>, \<open>MakeDate\<close> and \<open>TimeClip\<close> of the standard, on integers; the
  month counts from 0 and may lie outside a year.\<close>

definition MakeDay :: "int \<Rightarrow> int \<Rightarrow> int \<Rightarrow> int" where
  "MakeDay y m d = daysFromCivil (y + m div 12) (m mod 12 + 1) 1 + d - 1"

definition MakeTime :: "int \<Rightarrow> int \<Rightarrow> int \<Rightarrow> int \<Rightarrow> int" where
  "MakeTime h m s ms = h * 3600000 + m * 60000 + s * 1000 + ms"

definition MakeDate :: "int \<Rightarrow> int \<Rightarrow> int" where
  "MakeDate dayNumber timeInDay = dayNumber * msPerDay + timeInDay"

definition TimeClip :: "int \<Rightarrow> int option" where
  "TimeClip t = (if \<bar>t\<bar> \<le> 8640000000000000 then Some t else None)"

definition UTC :: "env \<Rightarrow> int \<Rightarrow> int" where
  "UTC E t = t - localTZA E t False"

definition LocalTime :: "env \<Rightarrow> int \<Rightarrow> int" where
  "LocalTime E t = t + localTZA E t True"

text \<open>\<open>new Date(year, month, day, hours, minutes, seconds).getTime()\<close> on numbers that are
  integers or \<open>NaN\<close>: a year from 0 to 99 counts from 1900.\<close>

definition newDate ::
  "env \<Rightarrow> int option \<Rightarrow> int option \<Rightarrow> int option \<Rightarrow> int option \<Rightarrow> int option \<Rightarrow> int option
     \<Rightarrow> int option" where
  "newDate E year month dayOfMonth hours minutes seconds =
     (case (year, month, dayOfMonth, hours, minutes, seconds) of
        (Some y, Some m, Some d, Some h, Some mi, Some s) \<Rightarrow>
          TimeClip (UTC E (MakeDate (MakeDay (if 0 \<le> y \<and> y \<le> 99 then 1900 + y else y) m d)
                                    (MakeTime h mi s 0)))
      | _ \<Rightarrow> None)"

text \<open>The getters of a \<open>Date\<close> whose time value is \<open>t\<close>.\<close>

definition getFullYear :: "env \<Rightarrow> int \<Rightarrow> int" where
  "getFullYear E t = fst (civilFromDays (LocalTime E t div msPerDay))"

definition getMonth :: "env \<Rightarrow> int \<Rightarrow> int" where
  "getMonth E t = fst (snd (civilFromDays (LocalTime E t div msPerDay))) - 1"

definition getDate :: "env \<Rightarrow> int \<Rightarrow> int" where
  "getDate E t = snd (snd (civilFromDays (LocalTime E t div msPerDay)))"

definition getHours :: "env \<Rightarrow> int \<Rightarrow> int" where
  "getHours E t = (LocalTime E t div 3600000) mod 24"

definition getMinutes :: "env \<Rightarrow> int \<Rightarrow> int" where
  "getMinutes E t = (LocalTime E t div 60000) mod 60"

definition getSeconds :: "env \<Rightarrow> int \<Rightarrow> int" where
  "getSeconds E t = (LocalTime E t div 1000) mod 60"

text \<open>\<open>getTimezoneOffset\<close>, in minutes (the offset is taken to be a whole number of them).\<close>

definition getTimezoneOffset :: "env \<Rightarrow> int \<Rightarrow> int" where
  "getTimezoneOffset E t = (t - LocalTime E t) div 60000"

subsection \<open>\<open>Date.parse\<close>\<close>

definition fixedDigits :: "nat \<Rightarrow> string \<Rightarrow> int option" where
  "fixedDigits n s =
     (if length s = n \<and> list_all isDigit s then Some (int (digitsValue s)) else None)"

definition daysInMonth :: "int \<Rightarrow> int \<Rightarrow> int" where
  "daysInMonth y m = MakeDay y m 1 - MakeDay y (m - 1) 1"

text \<open>A calendar date \<open>YYYY-MM-DD\<close> that exists: year, month from 1, day.\<close>

definition isoDate :: "string \<Rightarrow> (int \<times> int \<times> int) option" where
  "isoDate s =
     (if length s = 10 \<and> s ! 4 = CHR ''-'' \<and> s ! 7 = CHR ''-''
      then case (fixedDigits 4 (take 4 s), fixedDigits 2 (take 2 (drop 5 s)),
                 fixedDigits 2 (drop 8 s)) of
             (Some y, Some m, Some d) \<Rightarrow>
               if 1 \<le> m \<and> m \<le> 12 \<and> 1 \<le> d \<and> d \<le> daysInMonth y m then Some (y, m, d)
               else None
           | _ \<Rightarrow> None
      else None)"

text \<open>A time of day \<open>HH:mm:ss\<close> up to 23:59:59, in milliseconds.\<close>

definition isoTime :: "string \<Rightarrow> int option" where
  "isoTime s =
     (if length s = 8 \<and> s ! 2 = CHR '':'' \<and> s ! 5 = CHR '':''
      then case (fixedDigits 2 (take 2 s), fixedDigits 2 (take 2 (drop 3 s)),
                 fixedDigits 2 (drop 6 s)) of
             (Some h, Some m, Some sec) \<Rightarrow>
               if h \<le> 23 \<and> m \<le> 59 \<and> sec \<le> 59 then Some (MakeTime h m sec 0) else None
           | _ \<Rightarrow> None
      else None)"

text \<open>A UTC offset \<open>Z\<close>, \<open>+HH:mm\<close> or \<open>-HH:mm\<close>, in milliseconds.\<close>

definition isoOffset :: "string \<Rightarrow> int option" where
  "isoOffset s =
     (if s = ''Z'' then Some 0
      else if length s = 6 \<and> (s ! 0 = CHR ''+'' \<or> s ! 0 = CHR ''-'') \<and> s ! 3 = CHR '':''
      then case (fixedDigits 2 (take 2 (drop 1 s)), fixedDigits 2 (drop 4 s)) of
             (Some h, Some m) \<Rightarrow>
               if h \<le> 23 \<and> m \<le> 59
               then Some ((if s ! 0 = CHR ''-'' then -1 else 1) * MakeTime h m 0 0)
               else None
           | _ \<Rightarrow> None
      else None)"

text \<open>The legacy shape \<open>YYYY/MM/DD\<close> of a calendar date that exists, for the years from
  0100 on: the engines do not agree on the century of a year below 100 (V8 reads 0000 to
  0049 as 20xx and 0050 to 0099 as 19xx), so those strings are left to the environment.\<close>

definition slashDate :: "string \<Rightarrow> (int \<times> int \<times> int) option" where
  "slashDate s =
     (if length s = 10 \<and> s ! 4 = CHR ''/'' \<and> s ! 7 = CHR ''/''
      then case (fixedDigits 4 (take 4 s), fixedDigits 2 (take 2 (drop 5 s)),
                 fixedDigits 2 (drop 8 s)) of
             (Some y, Some m, Some d) \<Rightarrow>
               if 100 \<le> y \<and> 1 \<le> m \<and> m \<le> 12 \<and> 1 \<le> d \<and> d \<le> daysInMonth y m
               then Some (y, m, d)
               else None
           | _ \<Rightarrow> None
      else None)"

text \<open>
  \<open>Date.parse(s)\<close>, which is also \<open>new Date(s).getTime()\<close>. Three shapes are read here. Two
  are of the ECMAScript date-time format, as the standard fixes them: the date alone
  (\<open>YYYY-MM-DD\<close>, which is UTC midnight) and date, time and offset
  (\<open>YYYY-MM-DDTHH:mm:ssZ\<close>, with \<open>Z\<close> or \<open>+HH:mm\<close> or \<open>-HH:mm\<close>). The third, \<open>YYYY/MM/DD\<close>, is
  outside that format, so the standard leaves it to the engine; for a year from 0100 on the
  engines in use (V8, SpiderMonkey, JavaScriptCore) all read it as the local midnight of
  that day, and so does the model. Every other string is the environment's.
\<close>

definition Date_parse :: "env \<Rightarrow> string \<Rightarrow> int option" where
  "Date_parse E s =
     (case isoDate s of
        Some (y, m, d) \<Rightarrow> TimeClip (MakeDate (MakeDay y (m - 1) d) 0)
      | None \<Rightarrow>
          (case slashDate s of
             Some (y, m, d) \<Rightarrow> TimeClip (UTC E (MakeDate (MakeDay y (m - 1) d) 0))
           | None \<Rightarrow>
               if 20 \<le> length s \<and> s ! 10 = CHR ''T''
               then case (isoDate (take 10 s), isoTime (take 8 (drop 11 s)),
                          isoOffset (drop 19 s)) of
                      (Some (y, m, d), Some tod, Some off) \<Rightarrow>
                        TimeClip (MakeDate (MakeDay y (m - 1) d) tod - off)
                    | _ \<Rightarrow> implDateParse E s
               else implDateParse E s))"

section \<open>\<open>parseDateString\<close>\<close>

definition backslash :: char where
  "backslash = CHR 0x5C"

text \<open>\<open>s.replace(/[.*+?^${}()|[\]\\]/g, '\\$&')\<close>: a backslash before each of these.\<close>

definition isRegexMeta :: "char \<Rightarrow> bool" where
  "isRegexMeta c = (c \<in> set ''.*+?^${}()|[]'' \<or> c = backslash)"

definition escapeRegExp :: "string \<Rightarrow> string" where
  "escapeRegExp s = concat (map (\<lambda>c. if isRegexMeta c then [backslash, c] else [c]) s)"

text \<open>\<open>s.replace(p, r)\<close> for a string \<open>p\<close> and a replacement \<open>r\<close> without \<open>$\<close>: the first
  occurrence of \<open>p\<close> in \<open>s\<close>, wherever it stands, is replaced, and nothing else.\<close>

fun replaceFirst :: "string \<Rightarrow> string \<Rightarrow> string \<Rightarrow> string" where
  "replaceFirst p r [] = (if p = [] then r else [])"
| "replaceFirst p r (c # cs) =
     (if startsWith (c # cs) p then r @ drop (length p) (c # cs)
      else c # replaceFirst p r cs)"

definition namedGroup :: "string \<Rightarrow> string \<Rightarrow> string" where
  "namedGroup name body = ''(?<'' @ name @ ''>'' @ body @ '')''"

text \<open>\<open>\d{2}\<close>, \<open>\d{4}\<close>, \<open>\d{1,2}\<close>, \<open>[^\d\s\/\-.,]+\<close> and
  \<open>Z|[+-]\d{2}:?\d{2}|[+-]\d{4}\<close>.\<close>

definition digits2 :: string where
  "digits2 = backslash # ''d{2}''"

definition digits4 :: string where
  "digits4 = backslash # ''d{4}''"

definition digits12 :: string where
  "digits12 = backslash # ''d{1,2}''"

definition nameBody :: string where
  "nameBody = ''[^'' @ backslash # ''d'' @ backslash # ''s'' @ backslash # ''/'' @ backslash # ''-.,]+''"

definition zoneBody :: string where
  "zoneBody = ''Z|[+-]'' @ digits2 @ '':?'' @ digits2 @ ''|[+-]'' @ digits4"

text \<open>The fifteen calls of \<open>replace\<close>, in the order of the chain: the token searched for and
  the text put in its place.\<close>

definition tokenGroups :: "(string \<times> string) list" where
  "tokenGroups =
     [(''YYYY'', namedGroup ''YYYY'' digits4),
      (''YY'', namedGroup ''YY'' digits2),
      (''Mmm'', namedGroup ''Mmm'' nameBody),
      (''MM'', namedGroup ''MM'' digits2),
      (''M'', namedGroup ''M'' digits12),
      (''DD'', namedGroup ''DD'' digits2),
      (''D'', namedGroup ''D'' digits12),
      (''HH'', namedGroup ''HH'' digits2),
      (''H'', namedGroup ''H'' digits12),
      (''mm'', namedGroup ''mm'' digits2),
      (''m'', namedGroup ''m'' digits12),
      (''ss'', namedGroup ''ss'' digits2),
      (''s'', namedGroup ''s'' digits12),
      (''Www'', namedGroup ''Www'' nameBody),
      (''Z'', namedGroup ''Z'' zoneBody)]"

text \<open>\<open>patternStr\<close>: each call works on the result of the one before.\<close>

definition patternStr :: "string \<Rightarrow> string" where
  "patternStr format =
     foldl (\<lambda>s (tok, rep). replaceFirst tok rep s) (escapeRegExp format) tokenGroups"

text \<open>
  \<open>new RegExp(p)\<close> throws a \<open>SyntaxError\<close> when, outside a character class and not escaped,
  \<open>(?<\<close> is followed by a character that neither starts a group name nor makes a
  lookbehind (\<open>=\<close>, \<open>!\<close>). \<open>scanGroupNames\<close> finds such a place; the flag says whether the
  scan stands inside a class. A name may start with a letter, \<open>$\<close>, \<open>_\<close>, an escape or a
  character outside ASCII.
\<close>

definition isNameStart :: "char \<Rightarrow> bool" where
  "isNameStart c =
     (isAsciiUpper c \<or> isAsciiLower c \<or> c = CHR ''$'' \<or> c = CHR ''_'' \<or> c = backslash
      \<or> 128 \<le> codeUnit c)"

definition badNameStart :: "string \<Rightarrow> bool" where
  "badNameStart r =
     (case r of [] \<Rightarrow> False | d # _ \<Rightarrow> \<not> (d = CHR ''='' \<or> d = CHR ''!'' \<or> isNameStart d))"

fun scanGroupNames :: "bool \<Rightarrow> string \<Rightarrow> bool" where
  "scanGroupNames inClass [] = False"
| "scanGroupNames inClass (c # cs) =
     (if c = backslash then scanGroupNames inClass (tl cs)
      else if inClass then scanGroupNames (c \<noteq> CHR '']'') cs
      else if c = CHR ''['' then scanGroupNames True cs
      else if startsWith (c # cs) ''(?<'' \<and> badNameStart (drop 2 cs) then True
      else scanGroupNames False cs)"

definition hasInvalidGroupName :: "string \<Rightarrow> bool" where
  "hasInvalidGroupName p = scanGroupNames False p"

text \<open>\<open>s.match(new RegExp(p))\<close>, with the exception as a result.\<close>

definition regexpMatch :: "env \<Rightarrow> string \<Rightarrow> string \<Rightarrow> regexResult" where
  "regexpMatch E p s = (if hasInvalidGroupName p then Throws else regexEngine E p s)"

text \<open>\<open>g.NAME\<close> where the code tests it: \<open>None\<close> unless the group took part in the match
  with a text that is not empty.\<close>

definition groupText :: "(string \<Rightarrow> string option) \<Rightarrow> string \<Rightarrow> string option" where
  "groupText g name = (if truthy (g name) then g name else None)"

definition monthNames :: "string list" where
  "monthNames = [''jan'', ''feb'', ''mar'', ''apr'', ''may'', ''jun'',
                 ''jul'', ''aug'', ''sep'', ''oct'', ''nov'', ''dec'']"

text \<open>\<open>xs.findIndex(p)\<close>, with \<open>None\<close> for -1.\<close>

fun findIndex :: "('a \<Rightarrow> bool) \<Rightarrow> 'a list \<Rightarrow> nat option" where
  "findIndex p [] = None"
| "findIndex p (x # xs) = (if p x then Some 0 else map_option Suc (findIndex p xs))"

definition pad2 :: "int option \<Rightarrow> string" where
  "pad2 n = padStart0 2 (showNum n)"

text \<open>The body of \<open>if (match && match.groups)\<close>: the fields from the groups \<open>g\<close>, then the
  time value.\<close>

definition fieldsToTime :: "env \<Rightarrow> (string \<Rightarrow> string option) \<Rightarrow> int option" where
  "fieldsToTime E g =
     (let year =
            (case groupText g ''YYYY'' of
               Some v \<Rightarrow> parseInt v
             | None \<Rightarrow>
                 (case groupText g ''YY'' of
                    Some v \<Rightarrow> map_option (\<lambda>y. if 70 \<le> y then 1900 + y else 2000 + y) (parseInt v)
                  | None \<Rightarrow> Some 1970));
          month =
            (case groupText g ''MM'' of
               Some v \<Rightarrow> map_option (\<lambda>m. m - 1) (parseInt v)
             | None \<Rightarrow>
                 (case groupText g ''M'' of
                    Some v \<Rightarrow> map_option (\<lambda>m. m - 1) (parseInt v)
                  | None \<Rightarrow>
                      (case groupText g ''Mmm'' of
                         Some v \<Rightarrow>
                           (case findIndex (\<lambda>m. startsWith (toLowerCase v) m) monthNames of
                              Some i \<Rightarrow> Some (int i)
                            | None \<Rightarrow> Some 0)
                       | None \<Rightarrow> Some 0)));
          dayOfMonth =
            (case groupText g ''DD'' of
               Some v \<Rightarrow> parseInt v
             | None \<Rightarrow> (case groupText g ''D'' of Some v \<Rightarrow> parseInt v | None \<Rightarrow> Some 1));
          hours =
            (case groupText g ''HH'' of
               Some v \<Rightarrow> parseInt v
             | None \<Rightarrow> (case groupText g ''H'' of Some v \<Rightarrow> parseInt v | None \<Rightarrow> Some 0));
          minutes =
            (case groupText g ''mm'' of
               Some v \<Rightarrow> parseInt v
             | None \<Rightarrow> (case groupText g ''m'' of Some v \<Rightarrow> parseInt v | None \<Rightarrow> Some 0));
          seconds =
            (case groupText g ''ss'' of
               Some v \<Rightarrow> parseInt v
             | None \<Rightarrow> (case groupText g ''s'' of Some v \<Rightarrow> parseInt v | None \<Rightarrow> Some 0));
          viaZone =
            (case groupText g ''Z'' of
               None \<Rightarrow> None
             | Some z0 \<Rightarrow>
                 (let z = (if z0 = ''Z'' \<or> z0 = ''z'' then ''Z''
                           else if length z0 = 5 then take 3 z0 @ '':'' @ drop 3 z0
                           else z0);
                      iso = padStart0 4 (showNum year) @ ''-'' @ pad2 (map_option (\<lambda>m. m + 1) month)
                            @ ''-'' @ pad2 dayOfMonth @ ''T'' @ pad2 hours @ '':'' @ pad2 minutes
                            @ '':'' @ pad2 seconds @ z
                  in Date_parse E iso))
      in case viaZone of
           Some timestamp \<Rightarrow> Some timestamp
         | None \<Rightarrow> newDate E year month dayOfMonth hours minutes seconds)"

text \<open>\<open>parseDateString(dateStr, format)\<close>: \<open>None\<close> is \<open>NaN\<close>. An exception inside \<open>try\<close> is
  caught (and logged), and so is the way to the last two lines, like a failed match.\<close>

definition parseDateString :: "env \<Rightarrow> string \<Rightarrow> string option \<Rightarrow> int option" where
  "parseDateString E dateStr format =
     (if dateStr = [] \<or> trim dateStr = ''-'' \<or> trim dateStr = [] then None
      else
        case format of
          None \<Rightarrow> Date_parse E dateStr
        | Some f \<Rightarrow>
            if f = [] then Date_parse E dateStr
            else
              (case regexpMatch E (''^'' @ patternStr f @ ''$'') (trim dateStr) of
                 Match (Some g) \<Rightarrow> fieldsToTime E g
               | _ \<Rightarrow> Date_parse E dateStr))"

section \<open>\<open>formatDate\<close>\<close>

text \<open>The alternatives of \<open>/YYYY|YY|Mmm|MM|M|DD|D|HH|H|mm|m|ss|s|Www|Z/g\<close>, in their
  order: at a position the first that matches is taken.\<close>

definition dateTokens :: "string list" where
  "dateTokens = [''YYYY'', ''YY'', ''Mmm'', ''MM'', ''M'', ''DD'', ''D'', ''HH'', ''H'',
                 ''mm'', ''m'', ''ss'', ''s'', ''Www'', ''Z'']"

definition firstToken :: "string \<Rightarrow> string option" where
  "firstToken s = find (\<lambda>tok. startsWith s tok) dateTokens"

text \<open>\<open>s.slice(-2)\<close>.\<close>

definition lastTwo :: "string \<Rightarrow> string" where
  "lastTwo s = drop (length s - 2) s"

text \<open>The entry of \<open>map\<close> for a token, as the string \<open>replace\<close> puts in.\<close>

definition renderToken :: "env \<Rightarrow> string option \<Rightarrow> int \<Rightarrow> string \<Rightarrow> string" where
  "renderToken E loc t tok =
     (if tok = ''YYYY'' then showInt (getFullYear E t)
      else if tok = ''YY'' then lastTwo (showInt (getFullYear E t))
      else if tok = ''MM'' then padStart0 2 (showInt (getMonth E t + 1))
      else if tok = ''M'' then showInt (getMonth E t + 1)
      else if tok = ''DD'' then padStart0 2 (showInt (getDate E t))
      else if tok = ''D'' then showInt (getDate E t)
      else if tok = ''HH'' then padStart0 2 (showInt (getHours E t))
      else if tok = ''H'' then showInt (getHours E t)
      else if tok = ''mm'' then padStart0 2 (showInt (getMinutes E t))
      else if tok = ''m'' then showInt (getMinutes E t)
      else if tok = ''ss'' then padStart0 2 (showInt (getSeconds E t))
      else if tok = ''s'' then showInt (getSeconds E t)
      else if tok = ''Www'' then shortWeekday E loc t
      else if tok = ''Mmm'' then shortMonth E loc t
      else
        (let offset = - getTimezoneOffset E t in
         (if 0 \<le> offset then ''+'' else ''-'')
         @ padStart0 2 (showInt (\<bar>offset\<bar> div 60)) @ '':'' @ padStart0 2 (showInt (\<bar>offset\<bar> mod 60))))"

lemma firstToken_not_empty: "firstToken s = Some tok \<Longrightarrow> tok \<noteq> []"
  by (auto simp: firstToken_def dateTokens_def split: if_splits)

text \<open>\<open>outputFormatStr.replace(/.../g, match => map[match])\<close>.\<close>

function expandTokens :: "env \<Rightarrow> string option \<Rightarrow> int \<Rightarrow> string \<Rightarrow> string" where
  "expandTokens E loc t [] = []"
| "expandTokens E loc t (c # cs) =
     (case firstToken (c # cs) of
        Some tok \<Rightarrow> renderToken E loc t tok @ expandTokens E loc t (drop (length tok) (c # cs))
      | None \<Rightarrow> c # expandTokens E loc t cs)"
  by pat_completeness auto
termination
  by (relation "measure (\<lambda>(E, loc, t, s). length s)")
     (auto dest!: firstToken_not_empty simp: neq_Nil_conv)

text \<open>\<open>formatDate(valueStr, inputFormatStr, outputFormatStr, locale)\<close>; an output format
  that is not a string is \<open>None\<close>.\<close>

definition formatDate ::
  "env \<Rightarrow> string \<Rightarrow> string option \<Rightarrow> string option \<Rightarrow> string option \<Rightarrow> string" where
  "formatDate E valueStr inputFormatStr outputFormatStr loc =
     (if valueStr = [] then []
      else
        case parseDateString E valueStr inputFormatStr of
          None \<Rightarrow> valueStr
        | Some timestamp \<Rightarrow>
            (case outputFormatStr of
               None \<Rightarrow> valueStr
             | Some f \<Rightarrow> expandTokens E (if truthy loc then loc else None) timestamp f))"

section \<open>The table\<close>

text \<open>An entry of \<open>options.columns\<close>; a field that is absent, or is not a string, is
  \<open>None\<close>. The fields are \<open>type\<close>, \<open>format\<close>, \<open>toString\<close>, \<open>unit\<close> and \<open>locale\<close>.\<close>

record columnConfig =
  cfgType :: "string option"
  cfgFormat :: "string option"
  cfgToString :: "string option"
  cfgUnit :: "string option"
  cfgLocale :: "string option"

definition emptyConfig :: columnConfig where
  "emptyConfig = \<lparr>cfgType = None, cfgFormat = None, cfgToString = None, cfgUnit = None,
                   cfgLocale = None\<rparr>"

text \<open>\<open>this.columns[i] || {}\<close>.\<close>

definition columnAt :: "columnConfig list \<Rightarrow> nat \<Rightarrow> columnConfig" where
  "columnAt cols i = (if i < length cols then cols ! i else emptyConfig)"

text \<open>\<open>colConfig.type || 'string'\<close>.\<close>

definition typeOf :: "columnConfig \<Rightarrow> string" where
  "typeOf c = (case cfgType c of None \<Rightarrow> ''string'' | Some t \<Rightarrow> if t = [] then ''string'' else t)"

text \<open>A row is the array of its cells, with the property \<open>_originalIndex\<close> that
  \<open>renderTable\<close> writes (\<open>None\<close> before).\<close>

record row =
  cells :: "string list"
  originalIndex :: "nat option"

text \<open>The fields of \<open>this\<close> that filtering and sorting read or write.\<close>

record table =
  data :: "row list"
  headers :: "string list"
  columns :: "columnConfig list"
  sortColumn :: "nat option"
  sortAsc :: bool
  searchQuery :: string
  searchAST :: "ast option"
  visibleColumns :: "nat set"

text \<open>\<open>String(r[i] || '')\<close>, which is also \<open>r[i]\<close> with \<open>undefined\<close> replaced by \<open>''\<close>.\<close>

definition cellAt :: "string list \<Rightarrow> nat \<Rightarrow> string" where
  "cellAt r i = (if i < length r then r ! i else [])"

section \<open>\<open>evaluateSearchAST\<close>\<close>

text \<open>\<open>targetColIndex\<close>, with \<open>None\<close> for -1.\<close>

definition targetColIndex :: "string list \<Rightarrow> string option \<Rightarrow> nat option" where
  "targetColIndex hs column =
     (case column of
        None \<Rightarrow> None
      | Some c \<Rightarrow> if c = [] then None else findIndex (\<lambda>h. toLowerCase h = toLowerCase c) hs)"

definition timeNum :: "int option \<Rightarrow> jsnum" where
  "timeNum t = (case t of None \<Rightarrow> NaN | Some ms \<Rightarrow> Fin (of_int ms))"

text \<open>\<open>searchValDate\<close>: four digits are the first of January of that year, local time.\<close>

definition searchValDate :: "env \<Rightarrow> string \<Rightarrow> int option" where
  "searchValDate E v =
     (if length v = 4 \<and> list_all isDigit v
      then newDate E (parseInt v) (Some 0) (Some 1) (Some 0) (Some 0) (Some 0)
      else Date_parse E v)"

text \<open>The last four lines of \<open>evaluateCell\<close>.\<close>

definition compareOp :: "operator \<Rightarrow> jsnum \<Rightarrow> jsnum \<Rightarrow> bool" where
  "compareOp opr cVal sVal =
     (case opr of
        GE \<Rightarrow> le_num sVal cVal
      | LE \<Rightarrow> le_num cVal sVal
      | GT \<Rightarrow> less_num sVal cVal
      | LT \<Rightarrow> less_num cVal sVal)"

text \<open>The closure \<open>evaluateCell\<close> for an inequality with operator \<open>opr\<close> and value \<open>v\<close>.\<close>

definition evaluateCell ::
  "env \<Rightarrow> columnConfig list \<Rightarrow> operator \<Rightarrow> string \<Rightarrow> string \<Rightarrow> nat \<Rightarrow> bool" where
  "evaluateCell E cols opr v cellValStr colIndex =
     (let colConfig = columnAt cols colIndex;
          searchValNum = parseFloat v;
          searchDate = searchValDate E v
      in if typeOf colConfig = ''date''
         then
           (let cellDate = parseDateString E cellValStr (cfgFormat colConfig) in
            if cellDate \<noteq> None \<and> searchDate \<noteq> None
            then compareOp opr (timeNum cellDate) (timeNum searchDate)
            else False)
         else
           (let cellNum = parseFloat (stripNumber cellValStr);
                cellDate = Date_parse E cellValStr
            in if \<not> isNaN cellNum \<and> \<not> isNaN searchValNum then compareOp opr cellNum searchValNum
               else if cellDate \<noteq> None \<and> searchDate \<noteq> None
               then compareOp opr (timeNum cellDate) (timeNum searchDate)
               else False))"

text \<open>\<open>finalRegexStr\<close>: a leading \<open>^\<close> and then a trailing \<open>$\<close> are taken off the value
  as anchors, what is left is escaped, and the anchors are put back.\<close>

definition finalRegexStr :: "string \<Rightarrow> string" where
  "finalRegexStr v =
     (let isStartsWith = startsWith v ''^'';
          v1 = (if isStartsWith then tl v else v);
          isEndsWith = endsWith v1 ''$'';
          v2 = (if isEndsWith then butlast v1 else v1)
      in (if isStartsWith then ''^'' else []) @ escapeRegExp v2 @ (if isEndsWith then ''$'' else []))"

text \<open>
  \<open>new RegExp(p, 'i').test(s)\<close> for a pattern of the shape \<open>finalRegexStr\<close> builds: an
  optional \<open>^\<close>, characters that stand for themselves (after a backslash when escaped), an
  optional \<open>$\<close>. \<open>patternLiteral\<close> reads the characters and the closing anchor.
\<close>

fun patternLiteral :: "string \<Rightarrow> string \<times> bool" where
  "patternLiteral [] = ([], False)"
| "patternLiteral [c] = (if c = CHR ''$'' then ([], True) else ([c], False))"
| "patternLiteral (c # d # r) =
     (if c = backslash then (case patternLiteral r of (l, e) \<Rightarrow> (d # l, e))
      else (case patternLiteral (d # r) of (l, e) \<Rightarrow> (c # l, e)))"

fun containsIgnoreCase :: "string \<Rightarrow> string \<Rightarrow> bool" where
  "containsIgnoreCase [] lit = (lit = [])"
| "containsIgnoreCase (c # cs) lit =
     (startsWithIgnoreCase (c # cs) lit \<or> containsIgnoreCase cs lit)"

definition regexTest :: "string \<Rightarrow> string \<Rightarrow> bool" where
  "regexTest p s =
     (let anchoredStart = startsWith p ''^'';
          (lit, anchoredEnd) = patternLiteral (if anchoredStart then tl p else p)
      in if anchoredStart \<and> anchoredEnd then length s = length lit \<and> startsWithIgnoreCase s lit
         else if anchoredStart then startsWithIgnoreCase s lit
         else if anchoredEnd then startsWithIgnoreCase (rev s) (rev lit)
         else containsIgnoreCase s lit)"

text \<open>The text of a cell that a \<open>TERM\<close> is tested against: what the table shows for a
  date column with an output format, the cell itself otherwise, in lower case.\<close>

definition cellText :: "env \<Rightarrow> columnConfig list \<Rightarrow> nat \<Rightarrow> string \<Rightarrow> string" where
  "cellText E cols i cell =
     (let colConfig = columnAt cols i in
      toLowerCase
        (if cfgType colConfig = Some ''date'' \<and> cfgToString colConfig \<noteq> None
         then formatDate E cell (cfgFormat colConfig) (cfgToString colConfig) (cfgLocale colConfig)
         else cell))"

text \<open>\<open>r.some((cell, i) => visibleColumns.has(i) && p(cell, i))\<close>.\<close>

definition someVisible :: "nat set \<Rightarrow> (string \<Rightarrow> nat \<Rightarrow> bool) \<Rightarrow> string list \<Rightarrow> bool" where
  "someVisible vis p r = list_ex (\<lambda>i. i \<in> vis \<and> p (cellAt r i) i) [0..<length r]"

text \<open>The two branches of \<open>evaluateSearchAST\<close> for a leaf.\<close>

fun evaluateLeaf :: "env \<Rightarrow> table \<Rightarrow> leaf \<Rightarrow> string list \<Rightarrow> bool" where
  "evaluateLeaf E T (Inequality column opr v) r =
     (case targetColIndex (headers T) column of
        Some i \<Rightarrow> evaluateCell E (columns T) opr v (cellAt r i) i
      | None \<Rightarrow> someVisible (visibleColumns T) (evaluateCell E (columns T) opr v) r)"
| "evaluateLeaf E T (Term column v) r =
     (case targetColIndex (headers T) column of
        Some i \<Rightarrow> regexTest (finalRegexStr v) (cellText E (columns T) i (cellAt r i))
      | None \<Rightarrow>
          someVisible (visibleColumns T)
            (\<lambda>cell i. regexTest (finalRegexStr v) (cellText E (columns T) i cell)) r)"

text \<open>\<open>evaluateSearchAST(ast, row)\<close>, on the cells of the row: \<open>||\<close> and \<open>&&\<close> are the
  connectives, since no branch has an effect.\<close>

fun evaluateSearchAST :: "env \<Rightarrow> table \<Rightarrow> ast option \<Rightarrow> string list \<Rightarrow> bool" where
  "evaluateSearchAST E T None r = True"
| "evaluateSearchAST E T (Some (OrNode l rt)) r =
     (evaluateSearchAST E T (Some l) r \<or> evaluateSearchAST E T (Some rt) r)"
| "evaluateSearchAST E T (Some (AndNode l rt)) r =
     (evaluateSearchAST E T (Some l) r \<and> evaluateSearchAST E T (Some rt) r)"
| "evaluateSearchAST E T (Some (Node lf)) r = evaluateLeaf E T lf r"

section \<open>Sorting and filtering in \<open>renderTable\<close>\<close>

text \<open>The comparator passed to \<open>sort\<close>, on the cells of two rows. In the date branch two
  of the results are returned at once, before the sign is turned for a descending sort.\<close>

definition sortCompare ::
  "env \<Rightarrow> columnConfig list \<Rightarrow> nat \<Rightarrow> bool \<Rightarrow> string list \<Rightarrow> string list \<Rightarrow> jsnum" where
  "sortCompare E cols sortCol asc a b =
     (let colConfig = columnAt cols sortCol;
          valA = cellAt a sortCol;
          valB = cellAt b sortCol;
          signed = (\<lambda>comp. if asc then comp else neg_num comp)
      in if typeOf colConfig = ''number''
         then
           (let numA = parseFloat (stripNumber valA);
                numB = parseFloat (stripNumber valB)
            in signed (minus_num (if isNaN numA then NegInf else numA)
                                 (if isNaN numB then NegInf else numB)))
         else if typeOf colConfig = ''date''
         then
           (let dateA = parseDateString E valA (cfgFormat colConfig);
                dateB = parseDateString E valB (cfgFormat colConfig)
            in if dateA = None \<and> dateB = None then signed (Fin 0)
               else if dateA = None then Fin 1
               else if dateB = None then Fin (- 1)
               else signed (minus_num (timeNum dateA) (timeNum dateB)))
         else signed (Fin (of_int (localeCompare E valA valB))))"

text \<open>
  \<open>Array.prototype.sort\<close> with a comparator: the sort is stable, and a result \<open>NaN\<close> of the
  comparator counts as 0. An element goes behind another when the comparator, called on
  the two in this order, is positive.
\<close>

definition comesAfter :: "('a \<Rightarrow> 'a \<Rightarrow> jsnum) \<Rightarrow> 'a \<Rightarrow> 'a \<Rightarrow> bool" where
  "comesAfter cmp x y = less_num (Fin 0) (cmp x y)"

fun insertSorted :: "('a \<Rightarrow> 'a \<Rightarrow> jsnum) \<Rightarrow> 'a \<Rightarrow> 'a list \<Rightarrow> 'a list" where
  "insertSorted cmp x [] = [x]"
| "insertSorted cmp x (y # ys) =
     (if comesAfter cmp x y then y # insertSorted cmp x ys else x # y # ys)"

fun sortWith :: "('a \<Rightarrow> 'a \<Rightarrow> jsnum) \<Rightarrow> 'a list \<Rightarrow> 'a list" where
  "sortWith cmp [] = []"
| "sortWith cmp (x # xs) = insertSorted cmp x (sortWith cmp xs)"

text \<open>
  The part of \<open>renderTable\<close> that computes \<open>filteredData\<close>: the callback of \<open>filter\<close> writes
  \<open>_originalIndex\<close> into every row of \<open>this.data\<close> (\<open>markRows\<close>) and keeps the rows that match;
  \<open>sort\<close> then orders the new array. The result is \<open>this\<close> afterwards and \<open>filteredData\<close>, whose
  elements are the row objects of \<open>this.data\<close>.
\<close>

definition markRows :: "row list \<Rightarrow> row list" where
  "markRows rs = map (\<lambda>(r, i). r\<lparr>originalIndex := Some i\<rparr>) (zip rs [0..<length rs])"

definition filterAndSort :: "env \<Rightarrow> table \<Rightarrow> table \<times> row list" where
  "filterAndSort E T =
     (let marked = markRows (data T);
          filteredData =
            filter (\<lambda>r. searchQuery T = [] \<or> trim (searchQuery T) = [] \<or> searchAST T = None
                         \<or> evaluateSearchAST E T (searchAST T) (cells r)) marked
      in (T\<lparr>data := marked\<rparr>,
          case sortColumn T of
            None \<Rightarrow> filteredData
          | Some c \<Rightarrow>
              sortWith (\<lambda>a b. sortCompare E (columns T) c (sortAsc T) (cells a) (cells b))
                       filteredData))"

section \<open>Example environments and tables\<close>

definition weekdayNames :: "string list" where
  "weekdayNames = [''Sun'', ''Mon'', ''Tue'', ''Wed'', ''Thu'', ''Fri'', ''Sat'']"

definition monthShortNames :: "string list" where
  "monthShortNames = [''Jan'', ''Feb'', ''Mar'', ''Apr'', ''May'', ''Jun'',
                      ''Jul'', ''Aug'', ''Sep'', ''Oct'', ''Nov'', ''Dec'']"

text \<open>Strings compared by their code units: -1, 0 or 1.\<close>

fun codeUnitCompare :: "string \<Rightarrow> string \<Rightarrow> int" where
  "codeUnitCompare [] [] = 0"
| "codeUnitCompare [] (y # ys) = - 1"
| "codeUnitCompare (x # xs) [] = 1"
| "codeUnitCompare (x # xs) (y # ys) =
     (if codeUnit x < codeUnit y then - 1
      else if codeUnit y < codeUnit x then 1
      else codeUnitCompare xs ys)"

text \<open>
  An engine in a time zone at a fixed offset \<open>off\<close> (in milliseconds) from UTC, with English
  names, whose \<open>Date.parse\<close> reads no string but those \<open>known\<close> lists outside the shapes of
  \<open>Date_parse\<close>. No pattern reaches its \<open>regexEngine\<close> in the examples below.
\<close>

definition fixedOffsetEnv :: "int \<Rightarrow> (string \<times> int) list \<Rightarrow> env" where
  "fixedOffsetEnv off known =
     \<lparr>regexEngine = (\<lambda>p s. NoMatch),
      implDateParse = map_of known,
      localTZA = (\<lambda>t isUTC. off),
      shortWeekday = (\<lambda>loc t. weekdayNames ! nat (((t + off) div msPerDay + 4) mod 7)),
      shortMonth =
        (\<lambda>loc t. monthShortNames ! nat (fst (snd (civilFromDays ((t + off) div msPerDay))) - 1)),
      localeCompare = codeUnitCompare\<rparr>"

text \<open>UTC, and Japan Standard Time, nine hours ahead.\<close>

definition utcEnv :: env where
  "utcEnv = fixedOffsetEnv 0 []"

definition jstEnv :: env where
  "jstEnv = fixedOffsetEnv 32400000 []"

text \<open>A table as \<open>parseCsv\<close> and \<open>init\<close> leave it for the given rows, headers and column
  entries: no query, no sort column, every column visible.\<close>

definition loadedTable :: "string list list \<Rightarrow> string list \<Rightarrow> columnConfig list \<Rightarrow> table" where
  "loadedTable rs hs cols =
     \<lparr>data = map (\<lambda>r. \<lparr>cells = r, originalIndex = None\<rparr>) rs,
      headers = hs,
      columns = cols,
      sortColumn = None,
      sortAsc = True,
      searchQuery = [],
      searchAST = None,
      visibleColumns = {i. i < length hs}\<rparr>"

definition typedColumn :: "string \<Rightarrow> columnConfig" where
  "typedColumn ty = emptyConfig\<lparr>cfgType := Some ty\<rparr>"

text \<open>The three rows of the sorting example, in a table sorted on its one column, which
  is typed \<open>date\<close> and has no input format.\<close>

definition dateRows :: "bool \<Rightarrow> table" where
  "dateRows asc =
     (loadedTable [[''2020-01-01''], [''not-a-date''], [''2019-06-01'']] [''date'']
                  [typedColumn ''date''])
     \<lparr>sortColumn := Some 0, sortAsc := asc\<rparr>"

text \<open>An engine at UTC whose \<open>Date.parse\<close> reads the text \<open>Jan.-5 2023\<close> as the fifth of
  January 2023: before the first number of a date, such an engine skips signs and
  punctuation.\<close>

definition lenientEnv :: env where
  "lenientEnv = fixedOffsetEnv 0 [(''Jan.-5 2023'', 1672876800000)]"

section \<open>Properties of the lexer\<close>

lemma lexStep_leaf:
  assumes "Leaf l \<in> set (fst (lexStep s))"
  shows "case l of Term c v \<Rightarrow> v \<noteq> [] \<or> c \<noteq> None
                 | Inequality c opr v \<Rightarrow> v \<noteq> [] \<or> c \<noteq> None"
  using assms
  by (auto simp: lexStep_def Let_def matchKeyword_def truthy_def toLowerCase_def
      split: if_splits option.splits prod.splits)

lemma tokenize_leaf:
  "Leaf l \<in> set (tokenize s) \<Longrightarrow>
   (case l of Term c v \<Rightarrow> v \<noteq> [] \<or> c \<noteq> None
            | Inequality c opr v \<Rightarrow> v \<noteq> [] \<or> c \<noteq> None)"
proof (induction s rule: tokenize.induct)
  case (1 s)
  show ?case
  proof (cases "s = []")
    case True
    with 1(2) tokenize.simps [of s] show ?thesis by simp
  next
    case False
    obtain ts r where st: "lexStep s = (ts, r)" by (cases "lexStep s")
    with False 1(2) tokenize.simps [of s]
    have "Leaf l \<in> set ts \<or> Leaf l \<in> set (tokenize r)" by simp
    then show ?thesis
    proof
      assume "Leaf l \<in> set ts"
      with st lexStep_leaf [of l s] show ?thesis by simp
    next
      assume "Leaf l \<in> set (tokenize r)"
      with 1(1) [OF False st [symmetric]] show ?thesis by simp
    qed
  qed
qed

text \<open>
  Claim C9. Whatever the query, every \<open>TERM\<close> and every \<open>INEQUALITY\<close> token the lexer
  pushes has a value that is not empty or a column that is not \<open>null\<close>: a fragment with
  neither pushes nothing.
\<close>

theorem lexer_leaf_has_value_or_column:
  "\<forall>t \<in> set (tokenize query). case t of
      Leaf (Term c v) \<Rightarrow> v \<noteq> [] \<or> c \<noteq> None
    | Leaf (Inequality c opr v) \<Rightarrow> v \<noteq> [] \<or> c \<noteq> None
    | _ \<Rightarrow> True"
proof
  fix t
  assume t: "t \<in> set (tokenize query)"
  show "case t of
      Leaf (Term c v) \<Rightarrow> v \<noteq> [] \<or> c \<noteq> None
    | Leaf (Inequality c opr v) \<Rightarrow> v \<noteq> [] \<or> c \<noteq> None
    | _ \<Rightarrow> True"
  proof (cases t)
    case (Leaf l)
    with t tokenize_leaf [of l query] show ?thesis by (cases l) auto
  qed simp_all
qed

lemma tokenize_example:
  "tokenize ''a: >b : >= ''
     = [Leaf (Term (Some ''a'') []), Leaf (Inequality None GT ''b''), Leaf (Term None '':'')]"
  by code_simp

theorem lexer_leaf_has_value_or_column_witness:
  "tokenize ''a: >b : >= ''
     = [Leaf (Term (Some ''a'') []), Leaf (Inequality None GT ''b''), Leaf (Term None '':'')]
   \<and> Some ''a'' \<noteq> (None :: string option) \<and> ''b'' \<noteq> [] \<and> '':'' \<noteq> []"
  using lexer_leaf_has_value_or_column [of "''a: >b : >= ''"]
  unfolding tokenize_example by simp

section \<open>Properties of the query language\<close>

lemma blank_trim: "(\<forall>c \<in> set q. isWhiteSpace c) \<Longrightarrow> trim q = []"
proof -
  assume "\<forall>c \<in> set q. isWhiteSpace c"
  then have "dropWhile isWhiteSpace q = []" by (induction q) auto
  then show ?thesis unfolding trim_def by (simp only: rev.simps dropWhile.simps)
qed

lemma trim_blank: "trim q = [] \<Longrightarrow> c \<in> set q \<Longrightarrow> isWhiteSpace c"
proof -
  assume a: "trim q = []" and c: "c \<in> set q"
  from a have "dropWhile isWhiteSpace (rev (dropWhile isWhiteSpace q)) = []"
    by (simp add: trim_def)
  then have "dropWhile isWhiteSpace q = []"
    by (metis dropWhile_eq_Nil_conv hd_dropWhile list.set_sel(1) set_rev)
  with c show ?thesis by (metis dropWhile_eq_Nil_conv)
qed

lemma tokenize_blank: "(\<forall>c \<in> set q. isWhiteSpace c) \<Longrightarrow> tokenize q = []"
proof (induction q)
  case Nil
  show ?case by (simp add: tokenize.simps)
next
  case (Cons c q)
  then have "lexStep (c # q) = ([], q)" by (simp add: lexStep_def)
  with Cons show ?case by (simp add: tokenize.simps [of "c # q"])
qed

text \<open>
  Claim C8. A query that is empty or holds nothing but white space parses to \<open>null\<close>, and
  the \<open>null\<close> tree is true of every row.
\<close>

theorem blank_query_matches_every_row:
  assumes "\<forall>c \<in> set query. isWhiteSpace c"
  shows "parseSearchQuery query = None \<and> evaluateSearchAST E T (parseSearchQuery query) r"
  using blank_trim [OF assms] by (simp add: parseSearchQuery_def)

theorem blank_query_matches_every_row_witness:
  "parseSearchQuery [CHR '' '', CHR 0x09, CHR 0xA0] = None
   \<and> evaluateSearchAST utcEnv (loadedTable [[''x'']] [''h''] [])
        (parseSearchQuery [CHR '' '', CHR 0x09, CHR 0xA0]) [''x'']
   \<and> parseSearchQuery [] = None"
  using blank_query_matches_every_row
          [of "[CHR '' '', CHR 0x09, CHR 0xA0]" utcEnv "loadedTable [[''x'']] [''h''] []" "[''x'']"]
        blank_query_matches_every_row [of "[]" utcEnv "loadedTable [[''x'']] [''h''] []" "[''x'']"]
  by (simp add: isWhiteSpace_def codeUnit_def)

text \<open>
  Claim C7. Juxtaposition and \<open>AND\<close> bind tighter than \<open>OR\<close>: a query whose tokens are
  a leaf \<open>a\<close>, \<open>OR\<close>, a leaf \<open>b\<close> and a leaf \<open>c\<close> parses to the tree Or(a, And(b, c)), which
  is true of a row exactly when \<open>a\<close> matches it, or \<open>b\<close> and \<open>c\<close> both do.
\<close>

theorem or_binds_weaker_than_juxtaposition:
  assumes "tokenize query = [Leaf a, OR, Leaf b, Leaf c]"
  shows "parseSearchQuery query = Some (OrNode (Node a) (AndNode (Node b) (Node c)))
       \<and> evaluateSearchAST E T (parseSearchQuery query) r
           = (evaluateLeaf E T a r \<or> (evaluateLeaf E T b r \<and> evaluateLeaf E T c r))"
proof -
  have "trim query \<noteq> []"
  proof
    assume "trim query = []"
    then have "\<forall>c \<in> set query. isWhiteSpace c" using trim_blank by blast
    from tokenize_blank [OF this] assms show False by simp
  qed
  moreover from this have "query \<noteq> []" by (auto simp: trim_def)
  moreover have "parseOr [Leaf a, OR, Leaf b, Leaf c]
      = (Some (OrNode (Node a) (AndNode (Node b) (Node c))), [])"
    by (simp add: startsTerm_def combine_def)
  ultimately have p: "parseSearchQuery query = Some (OrNode (Node a) (AndNode (Node b) (Node c)))"
    using assms by (simp add: parseSearchQuery_def)
  show ?thesis unfolding p by simp
qed

lemma tokenize_a_or_b_c:
  "tokenize ''a OR b c'' = [Leaf (Term None ''a''), OR, Leaf (Term None ''b''), Leaf (Term None ''c'')]"
  by code_simp

theorem or_binds_weaker_than_juxtaposition_witness:
  "tokenize ''a OR b c'' = [Leaf (Term None ''a''), OR, Leaf (Term None ''b''), Leaf (Term None ''c'')]
   \<and> parseSearchQuery ''a OR b c''
       = Some (OrNode (Node (Term None ''a'')) (AndNode (Node (Term None ''b'')) (Node (Term None ''c''))))
   \<and> evaluateSearchAST utcEnv (loadedTable [] [''h''] []) (parseSearchQuery ''a OR b c'') [''xa'']
   \<and> \<not> evaluateSearchAST utcEnv (loadedTable [] [''h''] []) (parseSearchQuery ''a OR b c'') [''xb'']"
proof -
  have a: "evaluateLeaf utcEnv (loadedTable [] [''h''] []) (Term None ''a'') [''xa'']"
    by (simp add: targetColIndex_def someVisible_def loadedTable_def cellAt_def cellText_def
        columnAt_def emptyConfig_def toLowerCase_def lowerChar_def codeUnit_def
        finalRegexStr_def endsWith_def escapeRegExp_def isRegexMeta_def backslash_def
        regexTest_def matchesIgnoreCase_def)
  have b: "\<not> evaluateLeaf utcEnv (loadedTable [] [''h''] []) (Term None ''a'') [''xb'']"
    by (simp add: targetColIndex_def someVisible_def loadedTable_def cellAt_def cellText_def
        columnAt_def emptyConfig_def toLowerCase_def lowerChar_def codeUnit_def
        finalRegexStr_def endsWith_def escapeRegExp_def isRegexMeta_def backslash_def
        regexTest_def matchesIgnoreCase_def)
  have c: "\<not> evaluateLeaf utcEnv (loadedTable [] [''h''] []) (Term None ''c'') [''xb'']"
    by (simp add: targetColIndex_def someVisible_def loadedTable_def cellAt_def cellText_def
        columnAt_def emptyConfig_def toLowerCase_def lowerChar_def codeUnit_def
        finalRegexStr_def endsWith_def escapeRegExp_def isRegexMeta_def backslash_def
        regexTest_def matchesIgnoreCase_def)
  from or_binds_weaker_than_juxtaposition [OF tokenize_a_or_b_c, of utcEnv "loadedTable [] [''h''] []"]
       a b c tokenize_a_or_b_c
  show ?thesis by simp
qed

lemma regexTest_start: "regexTest ''^'' s"
  by (simp add: regexTest_def)

lemma regexTest_end: "regexTest ''$'' s"
  by (simp add: regexTest_def)

lemma someVisible_True: "someVisible vis (\<lambda>cell i. True) r = (\<exists>i<length r. i \<in> vis)"
  by (auto simp: someVisible_def list_ex_iff)

text \<open>
  Claim C10. For a \<open>TERM\<close> without a column whose value is exactly \<open>^\<close>, or exactly \<open>$\<close>, the
  pattern is the anchor alone, with an empty literal, and every string passes its test.
  So the term is true of a row exactly when the row has a cell at a visible column: of
  every such row, and of no row when no column is visible.
\<close>

theorem lone_anchor_matches_rows_with_a_visible_cell:
  "finalRegexStr ''^'' = ''^'' \<and> finalRegexStr ''$'' = ''$''
   \<and> (\<forall>s. regexTest ''^'' s) \<and> (\<forall>s. regexTest ''$'' s)
   \<and> evaluateSearchAST E T (Some (Node (Term None ''^''))) r = (\<exists>i<length r. i \<in> visibleColumns T)
   \<and> evaluateSearchAST E T (Some (Node (Term None ''$''))) r = (\<exists>i<length r. i \<in> visibleColumns T)
   \<and> (visibleColumns T = {} \<longrightarrow> \<not> evaluateSearchAST E T (Some (Node (Term None ''^''))) r
                                \<and> \<not> evaluateSearchAST E T (Some (Node (Term None ''$''))) r)"
proof -
  have a: "finalRegexStr ''^'' = ''^''"
    by (simp add: finalRegexStr_def endsWith_def escapeRegExp_def)
  have b: "finalRegexStr ''$'' = ''$''"
    by (simp add: finalRegexStr_def endsWith_def escapeRegExp_def)
  show ?thesis
    by (simp add: a b regexTest_start regexTest_end targetColIndex_def someVisible_True)
qed

lemma parse_lone_anchor:
  "parseSearchQuery ''^'' = Some (Node (Term None ''^''))"
  "parseSearchQuery ''$'' = Some (Node (Term None ''$''))"
  by code_simp+

theorem lone_anchor_matches_rows_with_a_visible_cell_witness:
  "evaluateSearchAST utcEnv (loadedTable [] [''h''] []) (parseSearchQuery ''^'') [''abc'']
   \<and> evaluateSearchAST utcEnv (loadedTable [] [''h''] []) (parseSearchQuery ''$'') [''abc'']
   \<and> \<not> evaluateSearchAST utcEnv (loadedTable [] [] []) (parseSearchQuery ''^'') [''abc'']
   \<and> \<not> evaluateSearchAST utcEnv (loadedTable [] [] []) (parseSearchQuery ''$'') [''abc'']"
  using lone_anchor_matches_rows_with_a_visible_cell [of utcEnv "loadedTable [] [''h''] []" "[''abc'']"]
        lone_anchor_matches_rows_with_a_visible_cell [of utcEnv "loadedTable [] [] []" "[''abc'']"]
  unfolding parse_lone_anchor by (simp add: loadedTable_def)

section \<open>Properties of sorting and filtering\<close>

lemmas char_defs = isDigit_def codeUnit_def isWhiteSpace_def

lemmas date_defs = Date_parse_def isoDate_def slashDate_def fixedDigits_def digitsValue_def
  digitValue_def
  daysInMonth_def MakeDay_def MakeDate_def MakeTime_def daysFromCivil_def TimeClip_def msPerDay_def

lemmas column_defs = columnAt_def typedColumn_def emptyConfig_def typeOf_def cellAt_def

lemmas env_defs = utcEnv_def jstEnv_def lenientEnv_def fixedOffsetEnv_def

lemmas double_defs = toDouble_def roundDouble_def binaryExponent_def roundHalfEven_def pow2_def
  bitLength.simps Let_def


lemma toDouble_18489600000: "toDouble 18489600000 = Fin 18489600000"
  by (simp add: double_defs)

lemma toDouble_minus_18489600000: "toDouble (- 18489600000) = Fin (- 18489600000)"
  by (simp add: double_defs)

lemma Date_parse_2020: "Date_parse E ''2020-01-01'' = Some 1577836800000"
  by (simp add: date_defs char_defs)

lemma Date_parse_2019: "Date_parse E ''2019-06-01'' = Some 1559347200000"
  by (simp add: date_defs char_defs)

lemma Date_parse_not_a_date: "Date_parse E ''not-a-date'' = implDateParse E ''not-a-date''"
  by (simp add: date_defs char_defs)

lemma trim_id:
  assumes "s \<noteq> []" and "\<not> isWhiteSpace (hd s)" and "\<not> isWhiteSpace (last s)"
  shows "trim s = s"
proof -
  from assms have 1: "dropWhile isWhiteSpace s = s" by (cases s) auto
  from assms have "dropWhile isWhiteSpace (rev s) = rev s"
    by (cases "rev s") (auto simp: hd_rev)
  with 1 show ?thesis by (simp add: trim_def)
qed

lemma parseDateString_no_format:
  "s \<noteq> [] \<Longrightarrow> \<not> isWhiteSpace (hd s) \<Longrightarrow> \<not> isWhiteSpace (last s) \<Longrightarrow> s \<noteq> ''-''
   \<Longrightarrow> parseDateString E s None = Date_parse E s"
  by (simp add: parseDateString_def trim_id)

lemma parseDateString_2020: "parseDateString E ''2020-01-01'' None = Some 1577836800000"
  by (simp add: parseDateString_no_format char_defs Date_parse_2020)

lemma parseDateString_2019: "parseDateString E ''2019-06-01'' None = Some 1559347200000"
  by (simp add: parseDateString_no_format char_defs Date_parse_2019)

lemma parseDateString_not_a_date:
  "parseDateString E ''not-a-date'' None = implDateParse E ''not-a-date''"
  by (simp add: parseDateString_no_format char_defs Date_parse_not_a_date)

lemma dateRows_sorted:
  assumes "implDateParse E ''not-a-date'' = None"
  shows "map cells (snd (filterAndSort E (dateRows True)))
           = [[''2019-06-01''], [''2020-01-01''], [''not-a-date'']]"
    and "map cells (snd (filterAndSort E (dateRows False)))
           = [[''2020-01-01''], [''2019-06-01''], [''not-a-date'']]"
  using assms
  by (simp_all add: filterAndSort_def markRows_def dateRows_def loadedTable_def column_defs
      sortCompare_def parseDateString_2020 parseDateString_2019 parseDateString_not_a_date
      comesAfter_def timeNum_def upt_rec toDouble_18489600000 toDouble_minus_18489600000)

text \<open>
  Claim C3. On a column typed \<open>date\<close> the comparator returns zero for two cells that do
  not parse, and puts a row whose cell does not parse behind a row whose cell does,
  whatever the direction of the sort. With the cells \<open>2020-01-01\<close>, \<open>not-a-date\<close>,
  \<open>2019-06-01\<close> (the second of which the engine's \<open>Date.parse\<close> rejects) an ascending sort
  gives 2019-06-01, 2020-01-01, not-a-date and a descending sort 2020-01-01, 2019-06-01,
  not-a-date.
\<close>

theorem unparseable_dates_sort_last:
  assumes "typeOf (columnAt cols c) = ''date''"
    and "implDateParse E ''not-a-date'' = None"
  shows "(parseDateString E (cellAt a c) (cfgFormat (columnAt cols c)) = None
          \<and> parseDateString E (cellAt b c) (cfgFormat (columnAt cols c)) = None
          \<longrightarrow> sortCompare E cols c asc a b = Fin 0)
       \<and> (parseDateString E (cellAt a c) (cfgFormat (columnAt cols c)) = None
          \<and> parseDateString E (cellAt b c) (cfgFormat (columnAt cols c)) \<noteq> None
          \<longrightarrow> sortCompare E cols c asc a b = Fin 1 \<and> sortCompare E cols c asc b a = Fin (- 1)
              \<and> comesAfter (sortCompare E cols c asc) a b
              \<and> \<not> comesAfter (sortCompare E cols c asc) b a)
       \<and> map cells (snd (filterAndSort E (dateRows True)))
           = [[''2019-06-01''], [''2020-01-01''], [''not-a-date'']]
       \<and> map cells (snd (filterAndSort E (dateRows False)))
           = [[''2020-01-01''], [''2019-06-01''], [''not-a-date'']]"
  using assms(1) dateRows_sorted [OF assms(2)]
  by (auto simp: sortCompare_def comesAfter_def)

theorem unparseable_dates_sort_last_witness:
  "sortCompare utcEnv [typedColumn ''date''] 0 True [''not-a-date''] [''not-a-date''] = Fin 0
   \<and> sortCompare utcEnv [typedColumn ''date''] 0 False [''not-a-date''] [''not-a-date''] = Fin 0
   \<and> sortCompare utcEnv [typedColumn ''date''] 0 True [''not-a-date''] [''2020-01-01''] = Fin 1
   \<and> sortCompare utcEnv [typedColumn ''date''] 0 False [''not-a-date''] [''2020-01-01''] = Fin 1
   \<and> sortCompare utcEnv [typedColumn ''date''] 0 False [''2020-01-01''] [''not-a-date''] = Fin (- 1)
   \<and> map cells (snd (filterAndSort utcEnv (dateRows True)))
       = [[''2019-06-01''], [''2020-01-01''], [''not-a-date'']]
   \<and> map cells (snd (filterAndSort utcEnv (dateRows False)))
       = [[''2020-01-01''], [''2019-06-01''], [''not-a-date'']]"
proof -
  have t: "typeOf (columnAt [typedColumn ''date''] 0) = ''date''"
    by (simp add: column_defs)
  have f: "cfgFormat (columnAt [typedColumn ''date''] 0) = None"
    by (simp add: column_defs)
  have n: "implDateParse utcEnv ''not-a-date'' = None"
    by (simp add: env_defs)
  have c: "cellAt [s] 0 = s" for s
    by (simp add: cellAt_def)
  from unparseable_dates_sort_last [OF t n, of "[''not-a-date'']" "[''not-a-date'']" True]
       unparseable_dates_sort_last [OF t n, of "[''not-a-date'']" "[''not-a-date'']" False]
       unparseable_dates_sort_last [OF t n, of "[''not-a-date'']" "[''2020-01-01'']" True]
       unparseable_dates_sort_last [OF t n, of "[''not-a-date'']" "[''2020-01-01'']" False]
  show ?thesis
    by (simp add: f c n parseDateString_2020 parseDateString_not_a_date)
qed

text \<open>
  Claim C4, at an input where the code leaves it: on a column typed \<open>number\<close>, for two
  cells without a digit, both values are minus infinity and their difference, which the
  comparator returns, is \<open>NaN\<close>.
\<close>

theorem number_comparator_returns_NaN:
  "sortCompare E [typedColumn ''number''] 0 asc [''abc''] [''xyz''] = NaN"
  by (simp add: sortCompare_def column_defs stripNumber_def char_defs parseFloat_def
      readSign_def isNaN_def)
















section \<open>Properties of date parsing and formatting\<close>

text \<open>
  The chain of \<open>replace\<close> calls searches the whole string each time, the groups put in by
  earlier calls included: after \<open>YYYY\<close> has become \<open>(?<YYYY>\d{4})\<close>, the call for \<open>YY\<close>
  finds its token inside that group name, and so do the calls for \<open>M\<close> and \<open>D\<close> inside
  \<open>(?<MM>\<close> and \<open>(?<DD>\<close>. Here is the pattern for the format \<open>YYYY/MM/DD\<close> and for
  \<open>YYYY-MM-DD\<close>; it starts \<open>(?<(?<YY>\<close>, which no engine accepts.
\<close>

lemma patternStr_slashes:
  "patternStr ''YYYY/MM/DD''
     = ''(?<'' @ namedGroup ''YY'' digits2 @ ''YY>'' @ digits4 @ '')/''
       @ ''(?<'' @ namedGroup ''M'' digits12 @ ''M>'' @ digits2 @ '')/''
       @ ''(?<'' @ namedGroup ''D'' digits12 @ ''D>'' @ digits2 @ '')''"
  by code_simp

lemma invalid_slashes: "hasInvalidGroupName (''^'' @ patternStr ''YYYY/MM/DD'' @ ''$'')"
  by code_simp

lemma patternStr_dashes:
  "patternStr ''YYYY-MM-DD''
     = ''(?<'' @ namedGroup ''YY'' digits2 @ ''YY>'' @ digits4 @ '')-''
       @ ''(?<'' @ namedGroup ''M'' digits12 @ ''M>'' @ digits2 @ '')-''
       @ ''(?<'' @ namedGroup ''D'' digits12 @ ''D>'' @ digits2 @ '')''"
  by code_simp

lemma invalid_dashes: "hasInvalidGroupName (''^'' @ patternStr ''YYYY-MM-DD'' @ ''$'')"
  by code_simp

lemma replaceFirst_skip:
  assumes "p \<noteq> []" and "hd p \<notin> set pre"
  shows "replaceFirst p r (pre @ s) = pre @ replaceFirst p r s"
  using assms
proof (induction pre)
  case Nil
  then show ?case by simp
next
  case (Cons c pre)
  from Cons.prems obtain q qs where p: "p = q # qs" and q: "q \<noteq> c"
    by (cases p) auto
  with Cons show ?case by simp
qed

lemma foldl_replaceFirst_prefix:
  assumes "\<forall>(tok, rep) \<in> set toks. tok \<noteq> [] \<and> hd tok \<notin> set pre"
  shows "\<exists>t. foldl (\<lambda>s (tok, rep). replaceFirst tok rep s) (pre @ s) toks = pre @ t"
  using assms
proof (induction toks arbitrary: s)
  case Nil
  then show ?case by simp
next
  case (Cons a toks)
  obtain tok rep where a: "a = (tok, rep)" by (cases a)
  with Cons.prems have "tok \<noteq> []" "hd tok \<notin> set pre" by auto
  then have "replaceFirst tok rep (pre @ s) = pre @ replaceFirst tok rep s"
    by (rule replaceFirst_skip)
  with Cons a show ?case by simp
qed

lemma escapeRegExp_append: "escapeRegExp (a @ b) = escapeRegExp a @ escapeRegExp b"
  by (simp add: escapeRegExp_def)

lemma patternStr_YYYY: "\<exists>t. patternStr (''YYYY'' @ rest) = ''(?<(?<'' @ t"
proof -
  have e: "escapeRegExp (''YYYY'' @ rest) = ''YYYY'' @ escapeRegExp rest"
    by (simp add: escapeRegExp_append) (simp add: escapeRegExp_def isRegexMeta_def backslash_def)
  have 1: "replaceFirst ''YYYY'' (namedGroup ''YYYY'' digits4) (''YYYY'' @ escapeRegExp rest)
             = ''(?<YYYY>'' @ digits4 @ '')'' @ escapeRegExp rest"
    by (simp add: namedGroup_def)
  have 2: "replaceFirst ''YY'' (namedGroup ''YY'' digits2) (''(?<YYYY>'' @ digits4 @ '')'' @ escapeRegExp rest)
             = ''(?<(?<'' @ (''YY>'' @ digits2 @ '')YY>'' @ digits4 @ '')'' @ escapeRegExp rest)"
    by (simp add: namedGroup_def)
  have 3: "\<forall>(tok, rep) \<in> set (drop 2 tokenGroups). tok \<noteq> [] \<and> hd tok \<notin> set ''(?<(?<''"
    by (simp add: tokenGroups_def)
  have tg: "tokenGroups = (''YYYY'', namedGroup ''YYYY'' digits4)
              # (''YY'', namedGroup ''YY'' digits2) # drop 2 tokenGroups"
    by (simp add: tokenGroups_def)
  have "patternStr (''YYYY'' @ rest)
          = foldl (\<lambda>s (tok, rep). replaceFirst tok rep s)
              (replaceFirst ''YY'' (namedGroup ''YY'' digits2)
                 (replaceFirst ''YYYY'' (namedGroup ''YYYY'' digits4) (''YYYY'' @ escapeRegExp rest)))
              (drop 2 tokenGroups)"
    unfolding patternStr_def e by (subst tg) (simp only: foldl.simps prod.case)
  then have "patternStr (''YYYY'' @ rest)
          = foldl (\<lambda>s (tok, rep). replaceFirst tok rep s)
              (''(?<(?<'' @ (''YY>'' @ digits2 @ '')YY>'' @ digits4 @ '')'' @ escapeRegExp rest))
              (drop 2 tokenGroups)"
    by (simp only: 1 2)
  with foldl_replaceFirst_prefix [OF 3] show ?thesis by metis
qed

text \<open>So a format that starts with \<open>YYYY\<close> is never applied: whatever follows it, and
  whatever the date string, the result is that of a call without a format.\<close>

lemma format_YYYY_ignored:
  "parseDateString E s (Some (''YYYY'' @ rest)) = parseDateString E s None"
proof -
  obtain t where t: "patternStr (''YYYY'' @ rest) = ''(?<(?<'' @ t"
    using patternStr_YYYY by blast
  have "hasInvalidGroupName (''^'' @ patternStr (''YYYY'' @ rest) @ ''$'')"
    unfolding t by (simp add: hasInvalidGroupName_def badNameStart_def isNameStart_def
        backslash_def isAsciiUpper_def isAsciiLower_def codeUnit_def)
  then show ?thesis by (simp add: parseDateString_def regexpMatch_def)
qed

text \<open>
  Claim C2. \<open>parseDateString("2023/01/05", "YYYY/MM/DD")\<close> returns the time value of
  \<open>new Date(2023, 0, 5, 0, 0, 0)\<close>, the local midnight of the fifth of January 2023. It
  does so on the last two lines of the function: the pattern built from the format is the
  one above, \<open>new RegExp\<close> throws, and the result is \<open>new Date("2023/01/05").getTime()\<close>,
  which \<open>Date_parse\<close> reads as the local midnight of that day.
\<close>

theorem parseDateString_slashes_is_local_midnight:
  "regexpMatch E (''^'' @ patternStr ''YYYY/MM/DD'' @ ''$'') (trim ''2023/01/05'') = Throws
   \<and> parseDateString E ''2023/01/05'' (Some ''YYYY/MM/DD'') = Date_parse E ''2023/01/05''
   \<and> parseDateString E ''2023/01/05'' (Some ''YYYY/MM/DD'')
       = newDate E (Some 2023) (Some 0) (Some 5) (Some 0) (Some 0) (Some 0)"
proof -
  have m: "regexpMatch E (''^'' @ patternStr ''YYYY/MM/DD'' @ ''$'') s = Throws" for s
    using invalid_slashes by (simp add: regexpMatch_def)
  have t: "trim ''2023/01/05'' = ''2023/01/05''"
    by (simp add: trim_id char_defs)
  have p: "parseDateString E ''2023/01/05'' (Some ''YYYY/MM/DD'') = Date_parse E ''2023/01/05''"
    using m [of "''2023/01/05''"] by (simp add: parseDateString_def t)
  have d: "Date_parse E ''2023/01/05''
             = newDate E (Some 2023) (Some 0) (Some 5) (Some 0) (Some 0) (Some 0)"
    by (simp add: date_defs char_defs newDate_def)
  show ?thesis using m [of "trim ''2023/01/05''"] p d by simp
qed

lemma jst_steps:
  "newDate jstEnv (Some 2023) (Some 0) (Some 5) (Some 0) (Some 0) (Some 0) = Some 1672844400000"
  "parseDateString jstEnv ''2023-01-05T00:00:00+09:00'' None = Some 1672844400000"
  "formatDate jstEnv ''2023-01-05T00:00:00+09:00'' None (Some ''YYYY-MM-DD'') None = ''2023-01-05''"
  "parseDateString jstEnv ''2023-01-05'' (Some ''YYYY-MM-DD'') = Some 1672876800000"
  by code_simp+

text \<open>
  Claim C1, at an input where the code leaves it. Nine hours ahead of UTC, the time value
  of the fifth of January 2023, local midnight, is 1672844400000. \<open>formatDate\<close> with the
  output format \<open>YYYY-MM-DD\<close> prints it as \<open>2023-01-05\<close>. Parsing that text with the input
  format \<open>YYYY-MM-DD\<close> throws inside \<open>try\<close> and falls back to \<open>new Date("2023-01-05")\<close>, which
  is UTC midnight, 1672876800000: nine hours later than the time value formatted. The same
  happens to every format that starts with \<open>YYYY\<close>: it is not applied.
\<close>

theorem format_then_parse_misses_timestamp:
  "newDate jstEnv (Some 2023) (Some 0) (Some 5) (Some 0) (Some 0) (Some 0) = Some 1672844400000
   \<and> parseDateString jstEnv ''2023-01-05T00:00:00+09:00'' None = Some 1672844400000
   \<and> formatDate jstEnv ''2023-01-05T00:00:00+09:00'' None (Some ''YYYY-MM-DD'') None = ''2023-01-05''
   \<and> regexpMatch jstEnv (''^'' @ patternStr ''YYYY-MM-DD'' @ ''$'') ''2023-01-05'' = Throws
   \<and> parseDateString jstEnv ''2023-01-05'' (Some ''YYYY-MM-DD'') = Some 1672876800000
   \<and> parseDateString E s (Some (''YYYY'' @ rest)) = parseDateString E s None"
  using invalid_dashes format_YYYY_ignored [of E s rest]
  by (simp add: jst_steps regexpMatch_def)

end
